theory Spec2Isabelle
  imports Complex_Main
begin

section \<open>Strings\<close>

text \<open>
  A JavaScript string is a list of UTF-16 code units, which are natural numbers here.
  \<open>js\<close> gives the code units of a literal of ASCII characters; the one dash and the one
  apostrophe of the program's texts that are not ASCII are written as their code units.
\<close>

type_synonym jsstring = "nat list"

definition js :: "string \<Rightarrow> jsstring" where
  "js s = map of_char s"

text \<open>
  The white space of \<open>trim()\<close> and of \<open>\s\<close>: tab, line feed, vertical tab, form feed,
  carriage return, space, no-break space, the space separators U+1680, U+2000 to U+200A,
  U+202F, U+205F and U+3000, the line and paragraph separators U+2028 and U+2029, and
  U+FEFF.
\<close>

definition isSpace :: "nat \<Rightarrow> bool" where
  "isSpace u =
     (u \<in> set [0x09, 0x0A, 0x0B, 0x0C, 0x0D, 0x20, 0xA0, 0x1680, 0x2028, 0x2029, 0x202F,
                0x205F, 0x3000, 0xFEFF]
      \<or> (0x2000 \<le> u \<and> u \<le> 0x200A))"

definition trim :: "jsstring \<Rightarrow> jsstring" where
  "trim s = rev (dropWhile isSpace (rev (dropWhile isSpace s)))"

text \<open>
  \<open>toLowerCase\<close> and \<open>toUpperCase\<close> follow the Unicode tables of the runtime, which
  are not reproduced: every function that calls them takes them as the parameters
  \<open>lc\<close> and \<open>uc\<close>. What is used of them is stated by \<open>runtimeLower\<close> and
  \<open>runtimeUpper\<close>: they keep the empty string and nothing else empty, and on a text made
  of ASCII characters, the dash U+2014 and the apostrophe U+2019 they change the ASCII
  letters and nothing else.
\<close>

definition lowerUnit :: "nat \<Rightarrow> nat" where
  "lowerUnit u = (if 65 \<le> u \<and> u \<le> 90 then u + 32 else u)"

definition upperUnit :: "nat \<Rightarrow> nat" where
  "upperUnit u = (if 97 \<le> u \<and> u \<le> 122 then u - 32 else u)"

definition plainUnit :: "nat \<Rightarrow> bool" where
  "plainUnit u = (u < 128 \<or> u = 0x2014 \<or> u = 0x2019)"

definition runtimeLower :: "(jsstring \<Rightarrow> jsstring) \<Rightarrow> bool" where
  "runtimeLower lc =
     ((\<forall>x. (lc x = []) = (x = [])) \<and> (\<forall>x. list_all plainUnit x \<longrightarrow> lc x = map lowerUnit x))"

definition runtimeUpper :: "(jsstring \<Rightarrow> jsstring) \<Rightarrow> bool" where
  "runtimeUpper uc =
     ((\<forall>x. (uc x = []) = (x = [])) \<and> (\<forall>x. list_all plainUnit x \<longrightarrow> uc x = map upperUnit x))"

fun startsWith :: "jsstring \<Rightarrow> jsstring \<Rightarrow> bool" where
  "startsWith s [] = True"
| "startsWith [] (p # ps) = False"
| "startsWith (c # cs) (p # ps) = (c = p \<and> startsWith cs ps)"

fun includesStr :: "jsstring \<Rightarrow> jsstring \<Rightarrow> bool" where
  "includesStr [] p = (p = [])"
| "includesStr (c # cs) p = (startsWith (c # cs) p \<or> includesStr cs p)"

fun joinWith :: "jsstring \<Rightarrow> jsstring list \<Rightarrow> jsstring" where
  "joinWith sep [] = []"
| "joinWith sep [x] = x"
| "joinWith sep (x # y # ys) = x @ sep @ joinWith sep (y # ys)"

section \<open>JSON values\<close>

text \<open>
  A request body and a stored file hold parsed JSON. \<open>JObj kv\<close> is the object whose
  property \<open>k\<close> is the first binding of \<open>k\<close> in \<open>kv\<close>. \<open>JUndefined\<close> is what reading
  an absent property gives.
\<close>

datatype jsnumber = Finite rat | PosInfinity | NegInfinity | NaN

datatype jsval =
    JUndefined
  | JNull
  | JBool bool
  | JNum jsnumber
  | JStr jsstring
  | JArr "jsval list"
  | JObj "(jsstring \<times> jsval) list"

text \<open>\<open>input?.k\<close> and \<open>body.k\<close> on a parsed body: only an object has the property.\<close>

fun optField :: "jsval \<Rightarrow> jsstring \<Rightarrow> jsval" where
  "optField (JObj kv) k = (case map_of kv k of None \<Rightarrow> JUndefined | Some v \<Rightarrow> v)"
| "optField v k = JUndefined"


text \<open>The truthiness that \<open>!x\<close>, \<open>x || d\<close> and \<open>x ? a : b\<close> test.\<close>

fun truthy :: "jsval \<Rightarrow> bool" where
  "truthy JUndefined = False"
| "truthy JNull = False"
| "truthy (JBool b) = b"
| "truthy (JNum n) = (n \<noteq> Finite 0 \<and> n \<noteq> NaN)"
| "truthy (JStr s) = (s \<noteq> [])"
| "truthy (JArr xs) = True"
| "truthy (JObj kv) = True"

text \<open>\<open>x || d\<close>.\<close>

definition orElse :: "jsval \<Rightarrow> jsval \<Rightarrow> jsval" where
  "orElse x d = (if truthy x then x else d)"

text \<open>
  \<open>String(x)\<close> and the interpolation of \<open>x\<close> in a template. The decimal text of a
  number is the runtime's: it is the parameter \<open>ns\<close>.
\<close>

fun js_String :: "(jsnumber \<Rightarrow> jsstring) \<Rightarrow> jsval \<Rightarrow> jsstring" where
  "js_String ns JUndefined = js ''undefined''"
| "js_String ns JNull = js ''null''"
| "js_String ns (JBool b) = (if b then js ''true'' else js ''false'')"
| "js_String ns (JNum n) = ns n"
| "js_String ns (JStr s) = s"
| "js_String ns (JArr xs) =
     joinWith (js '','') (map (\<lambda>x. if x = JUndefined \<or> x = JNull then [] else js_String ns x) xs)"
| "js_String ns (JObj kv) = js ''[object Object]''"

section \<open>Risk engine\<close>

record risk_result =
  riskScore :: int
  riskLevel :: jsstring
  reasoning :: jsstring
  guardianMessage :: jsstring
  saferAction :: jsstring

definition clamp :: "int \<Rightarrow> int \<Rightarrow> int \<Rightarrow> int" where
  "clamp v lo hi = (if v < lo then lo else if v > hi then hi else v)"

text \<open>
  The classification both engines apply to the clamped score:
  \<open>let riskLevel = "LOW"; if (score >= 70) riskLevel = "HIGH"; else if (score >= 40) riskLevel = "MEDIUM"\<close>.
\<close>

definition riskLevelOf :: "int \<Rightarrow> jsstring" where
  "riskLevelOf score =
     (if score \<ge> 70 then js ''HIGH'' else if score \<ge> 40 then js ''MEDIUM'' else js ''LOW'')"

definition guardianMessageOf :: "jsstring \<Rightarrow> jsstring" where
  "guardianMessageOf level =
     (if level = js ''HIGH''
      then js ''High risk detected. Stay alert and consider contacting someone you trust.''
      else if level = js ''MEDIUM''
      then js ''Moderate risk detected. Stay aware of your surroundings.''
      else js ''Low risk detected. Exercise normal caution.'')"

definition saferActionOf :: "jsstring \<Rightarrow> jsstring" where
  "saferActionOf level =
     (if level = js ''HIGH''
      then js ''Avoid the route if possible, choose a well-lit path, or ask someone to accompany you.''
      else if level = js ''MEDIUM''
      then js ''Prefer well-lit routes and stay in populated areas.''
      else js ''Proceed but remain aware of surroundings.'')"

text \<open>The six weight rules, in the order of the source, before the clamp.\<close>

definition rawScore :: "jsval \<Rightarrow> int" where
  "rawScore input =
     (let score = 0;
          score = (if optField input (js ''timeOfDay'') = JStr (js ''night'') then score + 25 else score);
          score = (if optField input (js ''userAlone'') = JBool True then score + 25 else score);
          score = (if optField input (js ''neighborhoodType'') = JStr (js ''industrial'')
                   then score + 20 else score);
          score = (if optField input (js ''neighborhoodType'') = JStr (js ''downtown'')
                   then score + 10 else score);
          score = (if optField input (js ''routeLighting'') = JStr (js ''poor'') then score + 20 else score);
          score = (if optField input (js ''routeLighting'') = JStr (js ''mixed'') then score + 10 else score)
      in score)"

definition inputsText :: "(jsnumber \<Rightarrow> jsstring) \<Rightarrow> jsval \<Rightarrow> jsstring" where
  "inputsText ns input =
     js ''timeOfDay='' @ js_String ns (optField input (js ''timeOfDay''))
     @ js '', userAlone='' @ js_String ns (optField input (js ''userAlone''))
     @ js '', neighborhoodType='' @ js_String ns (optField input (js ''neighborhoodType''))
     @ js '', routeLighting='' @ js_String ns (optField input (js ''routeLighting''))"

text \<open>\<open>offlineRiskEngine\<close> of the two later revisions of the server.\<close>

definition offlineRiskEngine :: "(jsnumber \<Rightarrow> jsstring) \<Rightarrow> jsval \<Rightarrow> risk_result" where
  "offlineRiskEngine ns input =
     (let score = rawScore input;
          score = clamp score 0 100;
          level = riskLevelOf score
      in \<lparr> riskScore = score, riskLevel = level,
           reasoning = js ''Offline score computed from inputs: '' @ inputsText ns input,
           guardianMessage = guardianMessageOf level,
           saferAction = saferActionOf level \<rparr>)"

text \<open>\<open>fallbackRisk\<close> of the first revision: the same scoring, another reasoning text.\<close>

definition fallbackRisk :: "(jsnumber \<Rightarrow> jsstring) \<Rightarrow> jsval \<Rightarrow> risk_result" where
  "fallbackRisk ns input =
     (let score = rawScore input;
          score = clamp score 0 100;
          level = riskLevelOf score
      in \<lparr> riskScore = score, riskLevel = level,
           reasoning = js ''Score computed from inputs: '' @ inputsText ns input,
           guardianMessage = guardianMessageOf level,
           saferAction = saferActionOf level \<rparr>)"

section \<open>Persistent state\<close>

text \<open>
  The process keeps \<open>MEMORY\<close> in a variable and three JSON files on disk. A file that
  is absent or does not parse has the content \<open>None\<close>: \<open>readJsonFile\<close> gives its
  fallback then, and \<open>require\<close> throws. \<open>writeJsonFile\<close> catches a failing write,
  logs it and returns \<open>false\<close>, which every caller ignores; \<open>disk_writable\<close> says
  whether writes succeed. The guardians file is written by this process only, which
  writes arrays of guardian records. \<open>require\<close> keeps what it has loaded: the two
  \<open>required\<close> fields hold it, \<open>None\<close> before the first load. The rate limiter in front
  of some routes is not part of the model.
\<close>

record memory =
  hasMemory :: jsval
  lastLowScenarioId :: jsval
  lastSaferAction :: jsval
  lastGeneratedMessage :: jsval
  lastLocationTs :: jsval

record guardian =
  g_id :: jsstring
  g_name :: jsstring
  g_method :: jsstring
  g_value :: jsstring
  g_relationship :: jsstring
  g_createdAt :: int

record server_state =
  MEMORY :: memory
  memory_file :: "memory option"
  guardians_file :: "guardian list option"
  location_file :: "jsval option"
  disk_writable :: bool
  guardians_required :: "guardian list option"
  location_required :: "jsval option"

text \<open>The fallback of \<open>MEMORY\<close>, and the process started on an empty directory.\<close>

definition defaultMemory :: memory where
  "defaultMemory = \<lparr> hasMemory = JBool False, lastLowScenarioId = JNull,
     lastSaferAction = JNull, lastGeneratedMessage = JNull, lastLocationTs = JNull \<rparr>"

definition freshServer :: server_state where
  "freshServer = \<lparr> MEMORY = defaultMemory, memory_file = None, guardians_file = None,
     location_file = None, disk_writable = True, guardians_required = None,
     location_required = None \<rparr>"


definition readGuardians :: "server_state \<Rightarrow> guardian list" where
  "readGuardians s = (case guardians_file s of None \<Rightarrow> [] | Some list \<Rightarrow> list)"

definition writeGuardians :: "guardian list \<Rightarrow> server_state \<Rightarrow> server_state" where
  "writeGuardians list s = (if disk_writable s then s\<lparr>guardians_file := Some list\<rparr> else s)"

record location =
  lat :: "jsnumber option"
  lng :: "jsnumber option"
  accuracy :: "jsnumber option"
  ts :: "jsnumber option"

text \<open>\<open>typeof x === "number" ? x : null\<close>; \<open>None\<close> is \<open>null\<close>.\<close>

fun numberOrNull :: "jsval \<Rightarrow> jsnumber option" where
  "numberOrNull (JNum n) = Some n"
| "numberOrNull v = None"

definition nullLocation :: location where
  "nullLocation = \<lparr> lat = None, lng = None, accuracy = None, ts = None \<rparr>"

text \<open>\<open>typeof x === "object"\<close> on parsed JSON.\<close>

fun typeofObject :: "jsval \<Rightarrow> bool" where
  "typeofObject JNull = True"
| "typeofObject (JArr xs) = True"
| "typeofObject (JObj kv) = True"
| "typeofObject v = False"

definition readLastLocation :: "server_state \<Rightarrow> location" where
  "readLastLocation s =
     (let loc = (case location_file s of
                   None \<Rightarrow> JObj [(js ''lat'', JNull), (js ''lng'', JNull), (js ''accuracy'', JNull),
                                 (js ''ts'', JNull)]
                 | Some v \<Rightarrow> v)
      in if \<not> truthy loc \<or> \<not> typeofObject loc then nullLocation
         else \<lparr> lat = numberOrNull (optField loc (js ''lat'')),
                lng = numberOrNull (optField loc (js ''lng'')),
                accuracy = numberOrNull (optField loc (js ''accuracy'')),
                ts = numberOrNull (optField loc (js ''ts'')) \<rparr>)"

text \<open>\<open>Number.isFinite\<close> on a field of a location.\<close>

fun isFiniteNumber :: "jsnumber option \<Rightarrow> bool" where
  "isFiniteNumber (Some (Finite q)) = True"
| "isFiniteNumber n = False"

section \<open>Replies\<close>

text \<open>A reply that rejects the request: the HTTP status, \<open>error\<close> and \<open>details\<close>.\<close>

datatype rejection = Rejection nat jsstring "jsstring list"

section \<open>Risk assessment route\<close>




section \<open>Guardian registry\<close>

definition isDigit :: "nat \<Rightarrow> bool" where
  "isDigit u = (48 \<le> u \<and> u \<le> 57)"

text \<open>The class \<open>[0-9\s\-()]\<close>.\<close>

definition isPhoneChar :: "nat \<Rightarrow> bool" where
  "isPhoneChar u = (isDigit u \<or> isSpace u \<or> u = 45 \<or> u = 40 \<or> u = 41)"

text \<open>
  The test of \<open>/^\+?[0-9][0-9\s\-()]{6,}$/\<close>: an optional plus sign, a digit, then at
  least six characters of the class up to the end of the string.
\<close>

definition phonePattern :: "jsstring \<Rightarrow> bool" where
  "phonePattern v =
     (let w = (case v of [] \<Rightarrow> v | c # cs \<Rightarrow> if c = 43 then cs else v)
      in case w of [] \<Rightarrow> False
         | d # r \<Rightarrow> isDigit d \<and> 6 \<le> length r \<and> list_all isPhoneChar r)"




text \<open>\<open>String(x || d)\<close>.\<close>

definition stringOr :: "(jsnumber \<Rightarrow> jsstring) \<Rightarrow> jsval \<Rightarrow> jsstring \<Rightarrow> jsstring" where
  "stringOr ns x d = js_String ns (orElse x (JStr d))"



text \<open>
  \<open>DELETE /api/guardians/:id\<close>: a route parameter is a string. The reply is status 400
  or the number \<open>deleted\<close>.
\<close>

definition deleteGuardian :: "jsstring \<Rightarrow> server_state \<Rightarrow> (rejection + int) \<times> server_state" where
  "deleteGuardian idParam s =
     (let ident = trim idParam
      in if ident = [] then (Inl (Rejection 400 (js ''missing_id'') []), s)
         else (let list = readGuardians s;
                   nxt = filter (\<lambda>g. g_id g \<noteq> ident) list
               in (Inr (int (length list) - int (length nxt)), writeGuardians nxt s)))"

section \<open>Emergency package\<close>

text \<open>
  Two handlers are registered for \<open>POST /api/emergency/prepare\<close>. The first in the
  source loads the two files with \<open>require\<close> and checks nothing; the second reads the
  stores through \<open>readGuardians\<close> and \<open>readLastLocation\<close> and checks its
  preconditions.
\<close>

text \<open>
  \<open>require\<close> of a JSON file: what was loaded before, or else the content of the file,
  which is kept; it throws (\<open>None\<close>) when the file is absent or does not parse.
\<close>

definition requireGuardians :: "server_state \<Rightarrow> (guardian list \<times> server_state) option" where
  "requireGuardians s =
     (case guardians_required s of
        Some list \<Rightarrow> Some (list, s)
      | None \<Rightarrow> (case guardians_file s of
                   None \<Rightarrow> None
                 | Some list \<Rightarrow> Some (list, s\<lparr>guardians_required := Some list\<rparr>)))"

definition requireLocation :: "server_state \<Rightarrow> (jsval \<times> server_state) option" where
  "requireLocation s =
     (case location_required s of
        Some v \<Rightarrow> Some (v, s)
      | None \<Rightarrow> (case location_file s of
                   None \<Rightarrow> None
                 | Some v \<Rightarrow> Some (v, s\<lparr>location_required := Some v\<rparr>)))"

record inline_package =
  pk_risk :: jsval
  pk_note :: jsval
  pk_currentLocation :: jsval
  pk_notifiedGuardians :: "jsstring list"

text \<open>
  The handler registered first. What it throws reaches the error handler of the
  application, which replies status 500 and \<open>server_error\<close>.
\<close>

definition inlineEmergencyPrepare ::
  "(jsstring \<times> jsval) list \<Rightarrow> server_state \<Rightarrow> (rejection + inline_package) \<times> server_state" where
  "inlineEmergencyPrepare body s =
     (case requireGuardians s of
        None \<Rightarrow> (Inl (Rejection 500 (js ''server_error'') []), s)
      | Some (guardians, s1) \<Rightarrow>
          (case requireLocation s1 of
             None \<Rightarrow> (Inl (Rejection 500 (js ''server_error'') []), s1)
           | Some (loc, s2) \<Rightarrow>
               (Inr \<lparr> pk_risk = optField (JObj body) (js ''riskLevel''),
                      pk_note = optField (JObj body) (js ''note''),
                      pk_currentLocation = loc,
                      pk_notifiedGuardians = map g_name guardians \<rparr>, s2)))"

text \<open>
  What a \<open>POST\<close> on the path gets. The framework runs the handlers of a path in the
  order of their registration, and a handler that answers without calling \<open>next()\<close>
  ends the request: the first handler always answers or throws, so the second never
  runs.
\<close>

definition postEmergencyPrepare ::
  "(jsstring \<times> jsval) list \<Rightarrow> server_state \<Rightarrow> (rejection + inline_package) \<times> server_state" where
  "postEmergencyPrepare body s = inlineEmergencyPrepare body s"

text \<open>
  \<open>makeMapsLink\<close>: \<open>encodeURIComponent\<close> is the runtime's, the parameter \<open>enc\<close>.
\<close>

definition jsOfNumber :: "jsnumber option \<Rightarrow> jsval" where
  "jsOfNumber n = (case n of None \<Rightarrow> JNull | Some x \<Rightarrow> JNum x)"

definition makeMapsLink ::
  "(jsnumber \<Rightarrow> jsstring) \<Rightarrow> (jsstring \<Rightarrow> jsstring) \<Rightarrow> jsnumber option \<Rightarrow> jsnumber option
     \<Rightarrow> jsstring" where
  "makeMapsLink ns enc la lo =
     js ''https://maps.google.com/?q='' @ enc (js_String ns (jsOfNumber la))
     @ js '','' @ enc (js_String ns (jsOfNumber lo))"

record guardian_message =
  guardianId :: jsstring
  m_method :: jsstring
  m_to :: jsstring
  m_text :: jsstring
  m_shareLink :: jsstring

record emergency_pack =
  messages :: "guardian_message list"
  recommendedActions :: "jsstring list"
  shareLink :: jsstring

definition buildEmergencyMessages ::
  "(jsnumber \<Rightarrow> jsstring) \<Rightarrow> (jsstring \<Rightarrow> jsstring) \<Rightarrow> (jsstring \<Rightarrow> jsstring) \<Rightarrow> jsval \<Rightarrow> jsval
     \<Rightarrow> guardian list \<Rightarrow> location \<Rightarrow> emergency_pack" where
  "buildEmergencyMessages ns uc enc riskLevelIn noteIn guardians loc =
     (let level = uc (stringOr ns riskLevelIn (js ''HIGH''));
          link = makeMapsLink ns enc (lat loc) (lng loc);
          locLine = js ''My live location: '' @ link;
          noteLine = (if truthy noteIn then js ''Note: '' @ js_String ns noteIn else []);
          actions =
            (if level = js ''HIGH''
             then [js ''Move to a well-lit area'', js ''Stay on call with someone you trust'',
                   js ''Share your live location'', js ''Seek help nearby'']
             else if level = js ''MEDIUM''
             then [js ''Stay in populated areas'', js ''Share your location'',
                   js ''Avoid isolated routes'']
             else [js ''Keep awareness'', js ''Check in with a trusted person if needed'']);
          msgs = map (\<lambda>g.
            (let txt =
               (if g_method g = js ''sms''
                then (if level = js ''HIGH''
                      then js ''I feel unsafe. Please call me now. '' @ locLine
                           @ (if noteLine \<noteq> [] then js '' '' @ noteLine else [])
                      else js ''Quick safety check-in. '' @ locLine
                           @ (if noteLine \<noteq> [] then js '' '' @ noteLine else []))
                else (if level = js ''HIGH''
                      then js ''Hi '' @ g_name g @ js '','' @ [0x0A, 0x0A]
                           @ js ''I feel unsafe right now.'' @ [0x0A] @ locLine @ [0x0A]
                           @ noteLine @ [0x0A, 0x0A]
                           @ js ''Please call me. If I don'' @ [0x2019]
                           @ js ''t respond, please check on me.'' @ [0x0A]
                      else js ''Hi '' @ g_name g @ js '','' @ [0x0A, 0x0A]
                           @ js ''Quick check-in.'' @ [0x0A] @ locLine @ [0x0A]
                           @ noteLine @ [0x0A, 0x0A] @ js ''Thank you.'' @ [0x0A]))
             in \<lparr> guardianId = g_id g, m_method = g_method g, m_to = g_value g,
                  m_text = trim txt, m_shareLink = link \<rparr>)) guardians
      in \<lparr> messages = msgs, recommendedActions = actions, shareLink = link \<rparr>)"

record prepare_reply =
  p_riskLevel :: jsstring
  p_shareLink :: jsstring
  p_messages :: "guardian_message list"
  p_recommendedActions :: "jsstring list"
  p_hint :: jsstring

text \<open>The handler registered second. It writes nothing.\<close>

definition emergencyPrepare ::
  "(jsnumber \<Rightarrow> jsstring) \<Rightarrow> (jsstring \<Rightarrow> jsstring) \<Rightarrow> (jsstring \<Rightarrow> jsstring)
     \<Rightarrow> (jsstring \<times> jsval) list \<Rightarrow> server_state \<Rightarrow> rejection + prepare_reply" where
  "emergencyPrepare ns uc enc body s =
     (let riskLevelIn = optField (JObj body) (js ''riskLevel'');
          noteIn = optField (JObj body) (js ''note'')
      in if \<not> truthy riskLevelIn then Inl (Rejection 400 (js ''missing_riskLevel'') [])
         else (let guardians = readGuardians s
               in if length guardians = 0 then Inl (Rejection 400 (js ''no_guardians'') [])
                  else (let loc = readLastLocation s
                        in if \<not> isFiniteNumber (lat loc) \<or> \<not> isFiniteNumber (lng loc)
                           then Inl (Rejection 400 (js ''no_location'') [])
                           else (let pack = buildEmergencyMessages ns uc enc riskLevelIn noteIn
                                              guardians loc
                                 in Inr \<lparr> p_riskLevel = uc (js_String ns riskLevelIn),
                                          p_shareLink = shareLink pack,
                                          p_messages = messages pack,
                                          p_recommendedActions = recommendedActions pack,
                                          p_hint = js ''Frontend should show Copy buttons + sms:/mailto: links (no real sending required).'' \<rparr>))))"

section \<open>Emergency script\<close>

text \<open>
  \<open>buildEmergencyScript\<close> calls \<open>toUpperCase\<close>, \<open>toLowerCase\<close> and \<open>trim\<close> on what
  the request holds. Only a string has these methods: on any other value that is not
  replaced by the default, the call throws a \<open>TypeError\<close>.
\<close>

datatype js_error = TypeError

fun callString :: "(jsstring \<Rightarrow> jsstring) \<Rightarrow> jsval \<Rightarrow> js_error + jsstring" where
  "callString f (JStr x) = Inr (f x)"
| "callString f v = Inl TypeError"

record emergency_script =
  title :: jsstring
  script_text :: jsstring
  checklist :: "jsstring list"
  suggestedFollowups :: "jsstring list"

definition baseChecklist :: "jsstring list" where
  "baseChecklist = [js ''Share your live location'', js ''Move to a well-lit / populated area'',
     js ''Stay on call with someone you trust'']"

text \<open>The body of \<open>buildEmergencyScript\<close> once the four strings are there.\<close>

definition scriptFor :: "jsstring \<Rightarrow> jsstring \<Rightarrow> jsstring \<Rightarrow> jsstring \<Rightarrow> emergency_script" where
  "scriptFor level contact loc ctx =
     (let whereBit = (if loc \<noteq> [] then js '' near '' @ loc else []);
          contextBit = (if ctx \<noteq> [] then js '' ('' @ ctx @ js '')'' else [])
      in if contact = js ''campus'' \<or> contact = js ''security''
         then \<lparr> title = js ''Security message'',
                script_text =
                  (if level = js ''HIGH''
                   then js ''Hi, I need help'' @ whereBit @ js ''. I feel unsafe'' @ contextBit
                        @ js ''. Please advise immediate steps and, if possible, send assistance.''
                   else js ''Hi, I'm requesting safety support'' @ whereBit @ contextBit
                        @ js ''. Can you advise the safest route / next steps?''),
                checklist = js ''Share location with security'' # baseChecklist,
                suggestedFollowups = [js ''I can share my exact location now.'',
                  js ''I'm moving to a well-lit area.'', js ''Please stay on the line with me.''] \<rparr>
         else if contact = js ''family''
         then \<lparr> title = js ''Family message'',
                script_text =
                  (if level = js ''HIGH''
                   then js ''Hey, I feel unsafe'' @ whereBit @ contextBit
                        @ js ''. Can you stay on call with me? If I don't reply in 5 minutes, please check on me.''
                   else js ''Hey, I'm heading somewhere'' @ whereBit @ contextBit
                        @ js ''. Can you stay available for a quick check-in?''),
                checklist = js ''Send location to family'' # baseChecklist,
                suggestedFollowups = [js ''I'm sharing my live location now.'',
                  js ''Can you call me for a few minutes?'',
                  js ''If I stop responding, please check on me.''] \<rparr>
         else \<lparr> title = js ''Quick message'',
                script_text =
                  (if level = js ''HIGH''
                   then js ''Hey, I feel unsafe'' @ whereBit @ contextBit
                        @ js ''. Can you stay on call with me for 10 minutes? If I stop replying, please check on me.''
                   else if level = js ''MEDIUM''
                   then js ''Hey, I'm a bit uncomfortable'' @ whereBit @ contextBit
                        @ js ''. Can you stay on standby and check in with me in a few minutes?''
                   else js ''Hey! Quick check-in: I'm walking'' @ whereBit @ contextBit
                        @ js ''. I'll message when I arrive.''),
                checklist = js ''Send to a trusted friend'' # baseChecklist,
                suggestedFollowups = [js ''I'm sharing my live location now.'',
                  js ''Can you stay on call with me?'', js ''I'll text you when I arrive safely.''] \<rparr>)"

text \<open>A statement that throws ends the function: the rest runs on a value only.\<close>

fun bindE :: "js_error + 'a \<Rightarrow> ('a \<Rightarrow> js_error + 'b) \<Rightarrow> js_error + 'b" where
  "bindE (Inl e) k = Inl e"
| "bindE (Inr v) k = k v"

definition buildEmergencyScript ::
  "(jsstring \<Rightarrow> jsstring) \<Rightarrow> (jsstring \<Rightarrow> jsstring) \<Rightarrow> jsval \<Rightarrow> jsval \<Rightarrow> jsval \<Rightarrow> jsval
     \<Rightarrow> js_error + emergency_script" where
  "buildEmergencyScript lc uc riskLevelIn contactType locationText extra =
     bindE (callString uc (orElse riskLevelIn (JStr (js ''MEDIUM'')))) (\<lambda>level.
     bindE (callString lc (orElse contactType (JStr (js ''friend'')))) (\<lambda>contact.
     bindE (callString trim (orElse locationText (JStr []))) (\<lambda>loc.
     bindE (callString trim (orElse extra (JStr []))) (\<lambda>ctx.
     Inr (scriptFor level contact loc ctx)))))"

section \<open>Phrase suggestions\<close>

definition library :: "jsstring list" where
  "library =
     [js ''Can you stay on call with me for a few minutes?'',
      js ''I'm sharing my live location now.'',
      js ''If I stop replying, please check on me.'',
      js ''I'm moving to a well-lit area.'',
      js ''Can you meet me at a nearby public place?'',
      js ''Please call me when you can.'',
      js ''I'm not sure this route is safe'' @ [0x2014] @ js ''I'm taking another path.'',
      js ''If needed, can you contact campus security for me?'',
      js ''I'm feeling uncomfortable and want to be extra careful.'']"

text \<open>
  \<open>presageSuggest\<close> is called with a string only (the route rejects any other
  \<open>prefix\<close>), for which \<open>String(prefixRaw || "")\<close> is \<open>prefixRaw\<close>.
\<close>

definition presageSuggest :: "(jsstring \<Rightarrow> jsstring) \<Rightarrow> jsstring \<Rightarrow> jsstring list" where
  "presageSuggest lc prefixRaw =
     (let pre = lc (trim prefixRaw)
      in if pre = [] then take 6 library
         else (let starts = filter (\<lambda>x. startsWith (lc x) pre) library;
                   incl = filter (\<lambda>x. \<not> (x \<in> set starts) \<and> includesStr (lc x) pre) library
               in take 8 (starts @ incl)))"

text \<open>\<open>POST /api/presage-suggest\<close>: the reply holds \<open>provider\<close> and \<open>suggestions\<close>.\<close>

definition presageSuggestRoute ::
  "(jsstring \<Rightarrow> jsstring) \<Rightarrow> (jsstring \<times> jsval) list \<Rightarrow> rejection + jsstring \<times> jsstring list" where
  "presageSuggestRoute lc body =
     (case optField (JObj body) (js ''prefix'') of
        JStr p \<Rightarrow> Inr (js ''presage-style'', presageSuggest lc p)
      | _ \<Rightarrow> Inl (Rejection 400 (js ''missing_prefix'') []))"

section \<open>Preset scenarios and sample data\<close>



text \<open>A stored guardian and a stored location, for the examples.\<close>

definition ada :: guardian where
  "ada = \<lparr> g_id = js ''g1'', g_name = js ''Ada'', g_method = js ''sms'',
           g_value = js ''+90 555 123 45 67'', g_relationship = js ''friend'', g_createdAt = 0 \<rparr>"

definition harbour :: jsval where
  "harbour = JObj [(js ''lat'', JNum (Finite 41)), (js ''lng'', JNum (Finite 29)),
     (js ''accuracy'', JNull), (js ''ts'', JNum (Finite 1700000000000))]"

text \<open>Whether a value is a string.\<close>

fun isString :: "jsval \<Rightarrow> bool" where
  "isString (JStr x) = True"
| "isString v = False"

section \<open>The specification's wording\<close>

text \<open>
  The suggestion rule as the specification words it, on the prefix as given: the empty
  prefix gives the first six entries; any other prefix gives the entries whose lowercase
  form starts with the lowercase prefix, then the other entries whose lowercase form
  contains it, cut to eight.
\<close>

definition suggestAsSpecified :: "(jsstring \<Rightarrow> jsstring) \<Rightarrow> jsstring \<Rightarrow> jsstring list" where
  "suggestAsSpecified lc p =
     (if p = [] then take 6 library
      else (let a = filter (\<lambda>x. startsWith (lc x) (lc p)) library;
                b = filter (\<lambda>x. \<not> (x \<in> set a) \<and> includesStr (lc x) (lc p)) library
            in take 8 (a @ b)))"


definition phoneRuleViolated :: "(jsstring \<Rightarrow> jsstring) \<Rightarrow> guardian \<Rightarrow> bool" where
  "phoneRuleViolated lc g = (lc (g_method g) = js ''sms'' \<and> \<not> phonePattern (g_value g))"

text \<open>
  Two scenario inputs hold the same value in every scored field but \<open>k\<close>.
\<close>

definition sameExcept :: "jsstring \<Rightarrow> jsval \<Rightarrow> jsval \<Rightarrow> bool" where
  "sameExcept k a b =
     list_all (\<lambda>f. f = k \<or> optField a f = optField b f)
       [js ''timeOfDay'', js ''userAlone'', js ''neighborhoodType'', js ''routeLighting'']"

section \<open>Properties of strings\<close>

lemma js_eq_iff [simp]: "(js a = js b) = (a = b)"
  unfolding js_def by (induction a arbitrary: b) (auto simp add: Cons_eq_map_conv)

lemma js_Nil [simp]: "js [] = []"
  by (simp add: js_def)

lemma js_is_Nil [simp]: "(js a = []) = (a = [])"
  by (simp add: js_def)

lemma Nil_is_js [simp]: "([] = js a) = (a = [])"
  by (simp add: js_def)

lemma trim_Nil [simp]: "trim [] = []"
  by (simp add: trim_def)

section \<open>Properties of the risk engine\<close>

lemma rawScore_sum:
  "rawScore input =
     (if optField input (js ''timeOfDay'') = JStr (js ''night'') then 25 else 0)
   + (if optField input (js ''userAlone'') = JBool True then 25 else 0)
   + (if optField input (js ''neighborhoodType'') = JStr (js ''industrial'') then 20 else 0)
   + (if optField input (js ''neighborhoodType'') = JStr (js ''downtown'') then 10 else 0)
   + (if optField input (js ''routeLighting'') = JStr (js ''poor'') then 20 else 0)
   + (if optField input (js ''routeLighting'') = JStr (js ''mixed'') then 10 else 0)"
  by (simp add: rawScore_def Let_def)

lemma rawScore_bounds: "0 \<le> rawScore input \<and> rawScore input \<le> 90"
  by (simp add: rawScore_sum)

lemma offline_score: "riskScore (offlineRiskEngine ns input) = clamp (rawScore input) 0 100"
  by (simp add: offlineRiskEngine_def Let_def)

lemma fallback_score: "riskScore (fallbackRisk ns input) = clamp (rawScore input) 0 100"
  by (simp add: fallbackRisk_def Let_def)

lemma offline_level:
  "riskLevel (offlineRiskEngine ns input) = riskLevelOf (riskScore (offlineRiskEngine ns input))"
  by (simp add: offlineRiskEngine_def Let_def)

lemma fallback_level:
  "riskLevel (fallbackRisk ns input) = riskLevelOf (riskScore (fallbackRisk ns input))"
  by (simp add: fallbackRisk_def Let_def)

lemma clamp_range: "lo \<le> hi \<Longrightarrow> lo \<le> clamp v lo hi \<and> clamp v lo hi \<le> hi"
  by (simp add: clamp_def)

lemma clamp_inactive: "lo \<le> v \<Longrightarrow> v \<le> hi \<Longrightarrow> clamp v lo hi = v"
  by (simp add: clamp_def)

text \<open>
  Claim C1: for every input, the \<open>riskScore\<close> of \<open>offlineRiskEngine\<close> and of
  \<open>fallbackRisk\<close> is the sum of the six weights (25 for night, 25 for a user alone, 20
  for an industrial and 10 for a downtown neighbourhood, 20 for poor and 10 for mixed
  lighting) clamped to the interval from 0 to 100, and so lies in that interval.
\<close>

theorem riskScore_is_clamped_weight_sum:
  "riskScore (offlineRiskEngine ns input) =
     clamp ((if optField input (js ''timeOfDay'') = JStr (js ''night'') then 25 else 0)
          + (if optField input (js ''userAlone'') = JBool True then 25 else 0)
          + (if optField input (js ''neighborhoodType'') = JStr (js ''industrial'') then 20 else 0)
          + (if optField input (js ''neighborhoodType'') = JStr (js ''downtown'') then 10 else 0)
          + (if optField input (js ''routeLighting'') = JStr (js ''poor'') then 20 else 0)
          + (if optField input (js ''routeLighting'') = JStr (js ''mixed'') then 10 else 0)) 0 100
   \<and> riskScore (fallbackRisk ns input) = riskScore (offlineRiskEngine ns input)
   \<and> 0 \<le> riskScore (offlineRiskEngine ns input)
   \<and> riskScore (offlineRiskEngine ns input) \<le> 100"
proof -
  have "riskScore (offlineRiskEngine ns input) = clamp (rawScore input) 0 100"
    by (rule offline_score)
  moreover have "riskScore (fallbackRisk ns input) = clamp (rawScore input) 0 100"
    by (rule fallback_score)
  moreover have "0 \<le> clamp (rawScore input) 0 100 \<and> clamp (rawScore input) 0 100 \<le> 100"
    by (rule clamp_range) simp
  ultimately show ?thesis
    by (simp add: rawScore_sum [symmetric])
qed

text \<open>
  The scenario \<open>s2\<close> of the source (night, alone, residential, poor lighting) scores
  25 + 25 + 0 + 20 = 70 in both engines.
\<close>

theorem riskScore_is_clamped_weight_sum_witness:
  "riskScore (offlineRiskEngine (\<lambda>n. [])
     (JObj [(js ''scenarioId'', JStr (js ''s2'')), (js ''timeOfDay'', JStr (js ''night'')), (js ''userAlone'', JBool True),
            (js ''neighborhoodType'', JStr (js ''residential'')), (js ''routeLighting'', JStr (js ''poor''))])) = 70
   \<and> riskScore (fallbackRisk (\<lambda>n. [])
     (JObj [(js ''scenarioId'', JStr (js ''s2'')), (js ''timeOfDay'', JStr (js ''night'')), (js ''userAlone'', JBool True),
            (js ''neighborhoodType'', JStr (js ''residential'')), (js ''routeLighting'', JStr (js ''poor''))])) = 70"
  using riskScore_is_clamped_weight_sum [of "\<lambda>n. []"
     "JObj [(js ''scenarioId'', JStr (js ''s2'')), (js ''timeOfDay'', JStr (js ''night'')), (js ''userAlone'', JBool True),
            (js ''neighborhoodType'', JStr (js ''residential'')), (js ''routeLighting'', JStr (js ''poor''))]"]
  by (simp add: clamp_def)

text \<open>
  Claim C2: for every input, the classification is read off the score by the thresholds
  70 and 40: at least 70 is HIGH, from 40 up to 69 is MEDIUM, below 40 is LOW. The
  thresholds are closed below: 40 is MEDIUM, 39 is LOW, 70 is HIGH, 69 is MEDIUM.
\<close>

theorem riskLevel_thresholds:
  "riskLevel (offlineRiskEngine ns input) =
     (if riskScore (offlineRiskEngine ns input) \<ge> 70 then js ''HIGH''
      else if riskScore (offlineRiskEngine ns input) \<ge> 40 then js ''MEDIUM'' else js ''LOW'')
   \<and> riskLevel (offlineRiskEngine ns input) = riskLevelOf (riskScore (offlineRiskEngine ns input))
   \<and> riskLevel (fallbackRisk ns input) = riskLevelOf (riskScore (fallbackRisk ns input))
   \<and> riskLevelOf 40 = js ''MEDIUM'' \<and> riskLevelOf 39 = js ''LOW''
   \<and> riskLevelOf 70 = js ''HIGH'' \<and> riskLevelOf 69 = js ''MEDIUM''"
proof -
  have "riskLevel (offlineRiskEngine ns input) = riskLevelOf (riskScore (offlineRiskEngine ns input))"
    by (rule offline_level)
  moreover have "riskLevel (fallbackRisk ns input) = riskLevelOf (riskScore (fallbackRisk ns input))"
    by (rule fallback_level)
  moreover have "riskLevelOf 40 = js ''MEDIUM'' \<and> riskLevelOf 39 = js ''LOW''
      \<and> riskLevelOf 70 = js ''HIGH'' \<and> riskLevelOf 69 = js ''MEDIUM''"
    by (simp add: riskLevelOf_def)
  ultimately show ?thesis
    by (simp add: riskLevelOf_def)
qed

text \<open>
  Two inputs on the boundaries: industrial with poor lighting by day and accompanied
  scores 40 and is MEDIUM; the scenario \<open>s2\<close> scores 70 and is HIGH.
\<close>

theorem riskLevel_thresholds_witness:
  "riskScore (offlineRiskEngine (\<lambda>n. [])
     (JObj [(js ''timeOfDay'', JStr (js ''day'')), (js ''userAlone'', JBool False),
            (js ''neighborhoodType'', JStr (js ''industrial'')), (js ''routeLighting'', JStr (js ''poor''))])) = 40
   \<and> riskLevel (offlineRiskEngine (\<lambda>n. [])
     (JObj [(js ''timeOfDay'', JStr (js ''day'')), (js ''userAlone'', JBool False),
            (js ''neighborhoodType'', JStr (js ''industrial'')), (js ''routeLighting'', JStr (js ''poor''))])) = js ''MEDIUM''
   \<and> riskLevel (offlineRiskEngine (\<lambda>n. [])
     (JObj [(js ''scenarioId'', JStr (js ''s2'')), (js ''timeOfDay'', JStr (js ''night'')), (js ''userAlone'', JBool True),
            (js ''neighborhoodType'', JStr (js ''residential'')), (js ''routeLighting'', JStr (js ''poor''))])) = js ''HIGH''"
  using riskLevel_thresholds [of "\<lambda>n. []"
     "JObj [(js ''timeOfDay'', JStr (js ''day'')), (js ''userAlone'', JBool False),
            (js ''neighborhoodType'', JStr (js ''industrial'')), (js ''routeLighting'', JStr (js ''poor''))]"]
    riskLevel_thresholds [of "\<lambda>n. []"
     "JObj [(js ''scenarioId'', JStr (js ''s2'')), (js ''timeOfDay'', JStr (js ''night'')), (js ''userAlone'', JBool True),
            (js ''neighborhoodType'', JStr (js ''residential'')), (js ''routeLighting'', JStr (js ''poor''))]"]
  by (simp add: offline_score rawScore_sum clamp_def)

lemma sameExcept_lighting:
  "sameExcept (js ''routeLighting'') a b \<Longrightarrow>
     optField a (js ''timeOfDay'') = optField b (js ''timeOfDay'')
   \<and> optField a (js ''userAlone'') = optField b (js ''userAlone'')
   \<and> optField a (js ''neighborhoodType'') = optField b (js ''neighborhoodType'')"
  by (simp add: sameExcept_def)

lemma sameExcept_alone:
  "sameExcept (js ''userAlone'') a b \<Longrightarrow>
     optField a (js ''timeOfDay'') = optField b (js ''timeOfDay'')
   \<and> optField a (js ''neighborhoodType'') = optField b (js ''neighborhoodType'')
   \<and> optField a (js ''routeLighting'') = optField b (js ''routeLighting'')"
  by (simp add: sameExcept_def)

lemma lighting_step:
  assumes "sameExcept (js ''routeLighting'') a b"
    and "optField a (js ''routeLighting'') = JStr x" and "optField b (js ''routeLighting'') = JStr y"
    and "(x, y) = (js ''good'', js ''mixed'') \<or> (x, y) = (js ''mixed'', js ''poor'')"
  shows "rawScore b = rawScore a + 10"
  using sameExcept_lighting [OF assms(1)] assms(2-4)
  by (auto simp add: rawScore_sum)

lemma alone_step:
  assumes "sameExcept (js ''userAlone'') a b"
    and "optField a (js ''userAlone'') = JBool False" and "optField b (js ''userAlone'') = JBool True"
  shows "rawScore b = rawScore a + 25"
  using sameExcept_alone [OF assms(1)] assms(2-3)
  by (simp add: rawScore_sum)

lemma score_mono: "rawScore a \<le> rawScore b \<Longrightarrow>
   riskScore (offlineRiskEngine ns a) \<le> riskScore (offlineRiskEngine ns b)"
  by (simp add: offline_score clamp_def)

text \<open>
  Claim C5: the score is monotone. With the other scored fields held fixed, the score
  does not decrease from good to mixed lighting, nor from mixed to poor lighting, nor
  from a user who is not alone to one who is.
\<close>

theorem riskScore_monotone:
  "(sameExcept (js ''routeLighting'') a b \<and> optField a (js ''routeLighting'') = JStr (js ''good'')
      \<and> optField b (js ''routeLighting'') = JStr (js ''mixed'')
      \<longrightarrow> riskScore (offlineRiskEngine ns a) \<le> riskScore (offlineRiskEngine ns b))
   \<and> (sameExcept (js ''routeLighting'') b c \<and> optField b (js ''routeLighting'') = JStr (js ''mixed'')
      \<and> optField c (js ''routeLighting'') = JStr (js ''poor'')
      \<longrightarrow> riskScore (offlineRiskEngine ns b) \<le> riskScore (offlineRiskEngine ns c))
   \<and> (sameExcept (js ''userAlone'') d e \<and> optField d (js ''userAlone'') = JBool False
      \<and> optField e (js ''userAlone'') = JBool True
      \<longrightarrow> riskScore (offlineRiskEngine ns d) \<le> riskScore (offlineRiskEngine ns e))"
proof (intro conjI impI)
  assume "sameExcept (js ''routeLighting'') a b \<and> optField a (js ''routeLighting'') = JStr (js ''good'')
      \<and> optField b (js ''routeLighting'') = JStr (js ''mixed'')"
  then have "rawScore b = rawScore a + 10"
    using lighting_step [of a b "(js ''good'')" "(js ''mixed'')"] by simp
  then show "riskScore (offlineRiskEngine ns a) \<le> riskScore (offlineRiskEngine ns b)"
    by (intro score_mono) simp
next
  assume "sameExcept (js ''routeLighting'') b c \<and> optField b (js ''routeLighting'') = JStr (js ''mixed'')
      \<and> optField c (js ''routeLighting'') = JStr (js ''poor'')"
  then have "rawScore c = rawScore b + 10"
    using lighting_step [of b c "(js ''mixed'')" "(js ''poor'')"] by simp
  then show "riskScore (offlineRiskEngine ns b) \<le> riskScore (offlineRiskEngine ns c)"
    by (intro score_mono) simp
next
  assume "sameExcept (js ''userAlone'') d e \<and> optField d (js ''userAlone'') = JBool False
      \<and> optField e (js ''userAlone'') = JBool True"
  then have "rawScore e = rawScore d + 25"
    using alone_step [of d e] by simp
  then show "riskScore (offlineRiskEngine ns d) \<le> riskScore (offlineRiskEngine ns e)"
    by (intro score_mono) simp
qed

text \<open>
  A night walk downtown: good, mixed and poor lighting score 35, 45 and 55 for a user
  who is not alone, and the user alone under poor lighting scores 80.
\<close>

theorem riskScore_monotone_witness:
  "sameExcept (js ''routeLighting'')
     (JObj [(js ''timeOfDay'', JStr (js ''night'')), (js ''userAlone'', JBool False),
            (js ''neighborhoodType'', JStr (js ''downtown'')), (js ''routeLighting'', JStr (js ''good''))])
     (JObj [(js ''timeOfDay'', JStr (js ''night'')), (js ''userAlone'', JBool False),
            (js ''neighborhoodType'', JStr (js ''downtown'')), (js ''routeLighting'', JStr (js ''mixed''))])
   \<and> sameExcept (js ''routeLighting'')
     (JObj [(js ''timeOfDay'', JStr (js ''night'')), (js ''userAlone'', JBool False),
            (js ''neighborhoodType'', JStr (js ''downtown'')), (js ''routeLighting'', JStr (js ''mixed''))])
     (JObj [(js ''timeOfDay'', JStr (js ''night'')), (js ''userAlone'', JBool False),
            (js ''neighborhoodType'', JStr (js ''downtown'')), (js ''routeLighting'', JStr (js ''poor''))])
   \<and> sameExcept (js ''userAlone'')
     (JObj [(js ''timeOfDay'', JStr (js ''night'')), (js ''userAlone'', JBool False),
            (js ''neighborhoodType'', JStr (js ''downtown'')), (js ''routeLighting'', JStr (js ''poor''))])
     (JObj [(js ''timeOfDay'', JStr (js ''night'')), (js ''userAlone'', JBool True),
            (js ''neighborhoodType'', JStr (js ''downtown'')), (js ''routeLighting'', JStr (js ''poor''))])
   \<and> riskScore (offlineRiskEngine (\<lambda>n. [])
       (JObj [(js ''timeOfDay'', JStr (js ''night'')), (js ''userAlone'', JBool False),
              (js ''neighborhoodType'', JStr (js ''downtown'')), (js ''routeLighting'', JStr (js ''good''))]))
     \<le> riskScore (offlineRiskEngine (\<lambda>n. [])
       (JObj [(js ''timeOfDay'', JStr (js ''night'')), (js ''userAlone'', JBool False),
              (js ''neighborhoodType'', JStr (js ''downtown'')), (js ''routeLighting'', JStr (js ''mixed''))]))
   \<and> riskScore (offlineRiskEngine (\<lambda>n. [])
       (JObj [(js ''timeOfDay'', JStr (js ''night'')), (js ''userAlone'', JBool False),
              (js ''neighborhoodType'', JStr (js ''downtown'')), (js ''routeLighting'', JStr (js ''mixed''))]))
     \<le> riskScore (offlineRiskEngine (\<lambda>n. [])
       (JObj [(js ''timeOfDay'', JStr (js ''night'')), (js ''userAlone'', JBool False),
              (js ''neighborhoodType'', JStr (js ''downtown'')), (js ''routeLighting'', JStr (js ''poor''))]))
   \<and> riskScore (offlineRiskEngine (\<lambda>n. [])
       (JObj [(js ''timeOfDay'', JStr (js ''night'')), (js ''userAlone'', JBool False),
              (js ''neighborhoodType'', JStr (js ''downtown'')), (js ''routeLighting'', JStr (js ''poor''))]))
     \<le> riskScore (offlineRiskEngine (\<lambda>n. [])
       (JObj [(js ''timeOfDay'', JStr (js ''night'')), (js ''userAlone'', JBool True),
              (js ''neighborhoodType'', JStr (js ''downtown'')), (js ''routeLighting'', JStr (js ''poor''))]))"
proof -
  let ?g = "JObj [(js ''timeOfDay'', JStr (js ''night'')), (js ''userAlone'', JBool False),
            (js ''neighborhoodType'', JStr (js ''downtown'')), (js ''routeLighting'', JStr (js ''good''))]"
  let ?m = "JObj [(js ''timeOfDay'', JStr (js ''night'')), (js ''userAlone'', JBool False),
            (js ''neighborhoodType'', JStr (js ''downtown'')), (js ''routeLighting'', JStr (js ''mixed''))]"
  let ?p = "JObj [(js ''timeOfDay'', JStr (js ''night'')), (js ''userAlone'', JBool False),
            (js ''neighborhoodType'', JStr (js ''downtown'')), (js ''routeLighting'', JStr (js ''poor''))]"
  let ?q = "JObj [(js ''timeOfDay'', JStr (js ''night'')), (js ''userAlone'', JBool True),
            (js ''neighborhoodType'', JStr (js ''downtown'')), (js ''routeLighting'', JStr (js ''poor''))]"
  have h1: "sameExcept (js ''routeLighting'') ?g ?m" by (simp add: sameExcept_def)
  have h2: "sameExcept (js ''routeLighting'') ?m ?p" by (simp add: sameExcept_def)
  have h3: "sameExcept (js ''userAlone'') ?p ?q" by (simp add: sameExcept_def)
  have f1: "optField ?g (js ''routeLighting'') = JStr (js ''good'')" by simp
  have f2: "optField ?m (js ''routeLighting'') = JStr (js ''mixed'')" by simp
  have f3: "optField ?p (js ''routeLighting'') = JStr (js ''poor'')" by simp
  have f4: "optField ?p (js ''userAlone'') = JBool False" by simp
  have f5: "optField ?q (js ''userAlone'') = JBool True" by simp
  from riskScore_monotone [where a = ?g and b = ?m and c = ?p and d = ?p and e = ?q
      and ns = "\<lambda>n. []"] h1 h2 h3 f1 f2 f3 f4 f5
  show ?thesis by blast
qed

text \<open>
  Claim C10: for every input the score is at most 90, since a neighbourhood is not both
  industrial and downtown and a lighting is not both poor and mixed: the clamp to 100
  changes nothing, and the score lies between 0 and 90.
\<close>

theorem riskScore_at_most_90:
  "0 \<le> riskScore (offlineRiskEngine ns input) \<and> riskScore (offlineRiskEngine ns input) \<le> 90
   \<and> 0 \<le> riskScore (fallbackRisk ns input) \<and> riskScore (fallbackRisk ns input) \<le> 90
   \<and> clamp (rawScore input) 0 100 = rawScore input
   \<and> riskScore (offlineRiskEngine ns input) = rawScore input
   \<and> riskScore (fallbackRisk ns input) = rawScore input"
proof -
  have b: "0 \<le> rawScore input \<and> rawScore input \<le> 90"
    by (rule rawScore_bounds)
  then have c: "clamp (rawScore input) 0 100 = rawScore input"
    by (intro clamp_inactive) simp_all
  from b c show ?thesis
    by (simp add: offline_score fallback_score)
qed

text \<open>The bound is reached: night, alone, industrial, poor lighting scores 90.\<close>

theorem riskScore_at_most_90_witness:
  "riskScore (offlineRiskEngine (\<lambda>n. [])
     (JObj [(js ''timeOfDay'', JStr (js ''night'')), (js ''userAlone'', JBool True),
            (js ''neighborhoodType'', JStr (js ''industrial'')), (js ''routeLighting'', JStr (js ''poor''))])) = 90
   \<and> rawScore (JObj [(js ''timeOfDay'', JStr (js ''night'')), (js ''userAlone'', JBool True),
            (js ''neighborhoodType'', JStr (js ''industrial'')), (js ''routeLighting'', JStr (js ''poor''))]) = 90"
  using riskScore_at_most_90 [of "\<lambda>n. []"
     "JObj [(js ''timeOfDay'', JStr (js ''night'')), (js ''userAlone'', JBool True),
            (js ''neighborhoodType'', JStr (js ''industrial'')), (js ''routeLighting'', JStr (js ''poor''))]"]
  by (simp add: rawScore_sum)

section \<open>Properties of the guardian registry\<close>



lemma lower_plain: "runtimeLower lc \<Longrightarrow> list_all plainUnit x \<Longrightarrow> lc x = map lowerUnit x"
  by (simp add: runtimeLower_def)

lemma lower_empty: "runtimeLower lc \<Longrightarrow> lc [] = []"
  by (simp add: runtimeLower_def)

lemma lower_is_empty: "runtimeLower lc \<Longrightarrow> (lc x = []) = (x = [])"
  by (simp add: runtimeLower_def)

lemma upper_plain: "runtimeUpper uc \<Longrightarrow> list_all plainUnit x \<Longrightarrow> uc x = map upperUnit x"
  by (simp add: runtimeUpper_def)

lemma runtime_ascii_maps: "runtimeLower (map lowerUnit)" "runtimeUpper (map upperUnit)"
  by (simp_all add: runtimeLower_def runtimeUpper_def)


lemma small_trims:
  "trim (js ''not-an-email'') = js ''not-an-email''" "trim (js ''12'') = js ''12''"
  "trim (js ''Ada'') = js ''Ada''" "trim (js ''+90 555 123 45 67'') = js ''+90 555 123 45 67''"
  "trim (js '' '') = []" "trim (js '' g1 '') = js ''g1''" "trim (js ''g1'') = js ''g1''"
  "trim (js ''g2'') = js ''g2''" "trim [0xA0, 103, 49, 0xA0] = js ''g1''"
  by (simp_all add: trim_def isSpace_def js_def)














lemma removed_count:
  "int (length xs) - int (length (filter (\<lambda>g. g_id g \<noteq> t) xs))
     = int (length (filter (\<lambda>g. g_id g = t) xs))"
proof -
  have "length (filter (\<lambda>g. g_id g = t) xs) + length (filter (\<lambda>g. \<not> g_id g = t) xs) = length xs"
    by (rule sum_length_filter_compl)
  then show ?thesis by simp
qed

lemma distinct_ids_at_most_one:
  "distinct (map g_id xs) \<Longrightarrow> length (filter (\<lambda>g. g_id g = t) xs) \<le> 1"
proof (induction xs)
  case Nil
  then show ?case by simp
next
  case (Cons x xs)
  show ?case
  proof (cases "g_id x = t")
    case True
    with Cons.prems have "t \<notin> g_id ` set xs" by auto
    then have "filter (\<lambda>g. g_id g = t) xs = []" by (auto simp add: filter_empty_conv)
    with True show ?thesis by simp
  next
    case False
    with Cons show ?thesis by simp
  qed
qed

lemma absent_id_keeps_all:
  "t \<notin> set (map g_id xs) \<Longrightarrow> filter (\<lambda>g. g_id g \<noteq> t) xs = xs"
  by (induction xs) auto

lemma absent_id_counts_zero:
  "t \<notin> set (map g_id xs) \<Longrightarrow> filter (\<lambda>g. g_id g = t) xs = []"
  by (induction xs) auto

lemma read_after_write:
  "readGuardians (writeGuardians xs s) = (if disk_writable s then xs else readGuardians s)"
  by (simp add: readGuardians_def writeGuardians_def)

lemma delete_rejected:
  "trim idParam = [] \<Longrightarrow>
   deleteGuardian idParam s = (Inl (Rejection 400 (js ''missing_id'') []), s)"
  by (simp add: deleteGuardian_def Let_def)

lemma delete_reply:
  "trim idParam \<noteq> [] \<Longrightarrow>
   fst (deleteGuardian idParam s) =
     Inr (int (length (filter (\<lambda>g. g_id g = trim idParam) (readGuardians s))))"
  by (simp add: deleteGuardian_def Let_def removed_count)

lemma delete_state:
  "trim idParam \<noteq> [] \<Longrightarrow>
   snd (deleteGuardian idParam s) =
     writeGuardians (filter (\<lambda>g. g_id g \<noteq> trim idParam) (readGuardians s)) s"
  by (simp add: deleteGuardian_def Let_def)

text \<open>
  Claim C8, as the code has it: the route trims the id it is given. An id that is empty
  after trimming is rejected with \<open>missing_id\<close> and nothing changes. For any other id
  the reply is the number of stored guardians whose id is the trimmed id, never an error.
  That number is 0 or 1 when the stored ids are distinct. When no stored guardian has the
  trimmed id, the reply is 0 and the collection reads as before. The collection that is
  read afterwards is the one without the matching records when the write succeeds, and
  the old one when it fails.
\<close>

theorem guardian_remove_counts_trimmed_id:
  "fst (deleteGuardian idParam s) =
     (if trim idParam = [] then Inl (Rejection 400 (js ''missing_id'') [])
      else Inr (int (length (filter (\<lambda>g. g_id g = trim idParam) (readGuardians s)))))
   \<and> (trim idParam = [] \<longrightarrow> snd (deleteGuardian idParam s) = s)
   \<and> (trim idParam \<noteq> [] \<and> distinct (map g_id (readGuardians s)) \<longrightarrow>
        fst (deleteGuardian idParam s) = Inr 0 \<or> fst (deleteGuardian idParam s) = Inr 1)
   \<and> (trim idParam \<noteq> [] \<and> trim idParam \<notin> set (map g_id (readGuardians s)) \<longrightarrow>
        fst (deleteGuardian idParam s) = Inr 0
        \<and> readGuardians (snd (deleteGuardian idParam s)) = readGuardians s)
   \<and> (trim idParam \<noteq> [] \<longrightarrow>
        readGuardians (snd (deleteGuardian idParam s)) =
          (if disk_writable s then filter (\<lambda>g. g_id g \<noteq> trim idParam) (readGuardians s)
           else readGuardians s))"
proof (intro conjI impI)
  show "fst (deleteGuardian idParam s) =
     (if trim idParam = [] then Inl (Rejection 400 (js ''missing_id'') [])
      else Inr (int (length (filter (\<lambda>g. g_id g = trim idParam) (readGuardians s)))))"
    by (simp add: delete_rejected delete_reply)
  show "trim idParam = [] \<Longrightarrow> snd (deleteGuardian idParam s) = s"
    by (simp add: delete_rejected)
  show w: "trim idParam \<noteq> [] \<Longrightarrow>
        readGuardians (snd (deleteGuardian idParam s)) =
          (if disk_writable s then filter (\<lambda>g. g_id g \<noteq> trim idParam) (readGuardians s)
           else readGuardians s)"
    by (simp add: delete_state read_after_write)
  {
    assume a: "trim idParam \<noteq> [] \<and> distinct (map g_id (readGuardians s))"
    then have "length (filter (\<lambda>g. g_id g = trim idParam) (readGuardians s)) \<le> 1"
      by (intro distinct_ids_at_most_one) simp
    then have "length (filter (\<lambda>g. g_id g = trim idParam) (readGuardians s)) = 0
        \<or> length (filter (\<lambda>g. g_id g = trim idParam) (readGuardians s)) = 1"
      by arith
    with a delete_reply [of idParam s]
    show "fst (deleteGuardian idParam s) = Inr 0 \<or> fst (deleteGuardian idParam s) = Inr 1"
      by auto
  }
  {
    assume a: "trim idParam \<noteq> [] \<and> trim idParam \<notin> set (map g_id (readGuardians s))"
    with delete_reply [of idParam s] show "fst (deleteGuardian idParam s) = Inr 0"
      by (simp add: absent_id_counts_zero)
    from a w show "readGuardians (snd (deleteGuardian idParam s)) = readGuardians s"
      by (simp add: absent_id_keeps_all)
  }
qed

text \<open>
  With one stored guardian \<open>g1\<close>: removing \<open>g2\<close> replies 0 and keeps the collection;
  removing \<open>g1\<close> replies 1 and leaves it empty, also when the id comes between two
  no-break spaces; an id of one blank is rejected and nothing changes.
\<close>

theorem guardian_remove_counts_trimmed_id_witness:
  "trim (js ''g2'') \<noteq> []
   \<and> distinct (map g_id (readGuardians (freshServer\<lparr>guardians_file := Some [ada]\<rparr>)))
   \<and> trim (js ''g2'') \<notin> set (map g_id (readGuardians (freshServer\<lparr>guardians_file := Some [ada]\<rparr>)))
   \<and> fst (deleteGuardian (js ''g2'') (freshServer\<lparr>guardians_file := Some [ada]\<rparr>)) = Inr 0
   \<and> readGuardians (snd (deleteGuardian (js ''g2'') (freshServer\<lparr>guardians_file := Some [ada]\<rparr>)))
       = [ada]
   \<and> fst (deleteGuardian (js ''g1'') (freshServer\<lparr>guardians_file := Some [ada]\<rparr>)) = Inr 1
   \<and> readGuardians (snd (deleteGuardian (js ''g1'') (freshServer\<lparr>guardians_file := Some [ada]\<rparr>)))
       = []
   \<and> fst (deleteGuardian [0xA0, 103, 49, 0xA0] (freshServer\<lparr>guardians_file := Some [ada]\<rparr>)) = Inr 1
   \<and> trim (js '' '') = []
   \<and> deleteGuardian (js '' '') (freshServer\<lparr>guardians_file := Some [ada]\<rparr>)
       = (Inl (Rejection 400 (js ''missing_id'') []), freshServer\<lparr>guardians_file := Some [ada]\<rparr>)"
proof -
  let ?s = "freshServer\<lparr>guardians_file := Some [ada]\<rparr>"
  have rd: "readGuardians ?s = [ada]" and dw: "disk_writable ?s"
    by (simp_all add: readGuardians_def freshServer_def)
  have i: "g_id ada = js ''g1''" by (simp add: ada_def)
  note t2 = guardian_remove_counts_trimmed_id [of "js ''g2''" ?s]
  note t1 = guardian_remove_counts_trimmed_id [of "js ''g1''" ?s]
  note tn = guardian_remove_counts_trimmed_id [of "[0xA0, 103, 49, 0xA0]" ?s]
  note tb = guardian_remove_counts_trimmed_id [of "js '' ''" ?s]
  have a: "fst (deleteGuardian (js ''g2'') ?s) = Inr 0"
    "readGuardians (snd (deleteGuardian (js ''g2'') ?s)) = [ada]"
    using t2 by (simp_all add: rd dw i small_trims)
  have b: "fst (deleteGuardian (js ''g1'') ?s) = Inr 1"
    "readGuardians (snd (deleteGuardian (js ''g1'') ?s)) = []"
    using t1 by (simp_all add: rd dw i small_trims)
  have c: "fst (deleteGuardian [0xA0, 103, 49, 0xA0] ?s) = Inr 1"
    using tn by (simp add: rd dw i small_trims)
  have d: "deleteGuardian (js '' '') ?s = (Inl (Rejection 400 (js ''missing_id'') []), ?s)"
    using tb by (simp add: small_trims prod_eq_iff)
  from a b c d show ?thesis
    by (simp add: rd i small_trims)
qed

text \<open>
  The claim as the specification states it fails on two ids that no stored guardian has.
  The id of one blank is rejected with \<open>missing_id\<close>, not answered with 0. The id
  \<open>g1\<close> between two blanks is trimmed to \<open>g1\<close>: the reply is 1 and the guardian is
  removed.
\<close>

theorem guardian_remove_counterexample:
  "js '' '' \<notin> set (map g_id (readGuardians (freshServer\<lparr>guardians_file := Some [ada]\<rparr>)))
   \<and> fst (deleteGuardian (js '' '') (freshServer\<lparr>guardians_file := Some [ada]\<rparr>))
       = Inl (Rejection 400 (js ''missing_id'') [])
   \<and> js '' g1 '' \<notin> set (map g_id (readGuardians (freshServer\<lparr>guardians_file := Some [ada]\<rparr>)))
   \<and> fst (deleteGuardian (js '' g1 '') (freshServer\<lparr>guardians_file := Some [ada]\<rparr>)) = Inr 1
   \<and> readGuardians (snd (deleteGuardian (js '' g1 '') (freshServer\<lparr>guardians_file := Some [ada]\<rparr>)))
       = []"
  by (simp add: deleteGuardian_def Let_def small_trims readGuardians_def writeGuardians_def
      freshServer_def ada_def)

section \<open>Properties of the emergency package route\<close>

lemma served_never_no_guardians:
  "fst (postEmergencyPrepare body s) \<noteq> Inl (Rejection 400 (js ''no_guardians'') [])"
  by (simp add: postEmergencyPrepare_def inlineEmergencyPrepare_def
      split: option.splits prod.splits)

lemma served_never_missing_riskLevel:
  "fst (postEmergencyPrepare body s) \<noteq> Inl (Rejection 400 (js ''missing_riskLevel'') [])"
  by (simp add: postEmergencyPrepare_def inlineEmergencyPrepare_def
      split: option.splits prod.splits)

lemma second_handler_no_guardians:
  "readGuardians s = [] \<Longrightarrow> truthy (optField (JObj body) (js ''riskLevel'')) \<Longrightarrow>
   emergencyPrepare ns uc enc body s = Inl (Rejection 400 (js ''no_guardians'') [])"
  by (simp add: emergencyPrepare_def Let_def)

text \<open>
  Claim C4 says that a request on an empty guardian collection gets the precondition
  error \<open>no_guardians\<close> and no package, whatever the stored location. The handler
  registered second does so for a request that holds a risk level. But it never runs:
  the handler registered first on the path answers. No request is answered
  \<open>no_guardians\<close>, nor \<open>missing_riskLevel\<close>. With a guardians file that holds the empty array and a location
  file, a request for level HIGH gets a package that names no guardian; with no files
  at all it gets status 500.
\<close>

theorem served_prepare_skips_the_guardian_check:
  "fst (postEmergencyPrepare body s) \<noteq> Inl (Rejection 400 (js ''no_guardians'') [])
   \<and> fst (postEmergencyPrepare body s) \<noteq> Inl (Rejection 400 (js ''missing_riskLevel'') [])
   \<and> readGuardians (freshServer\<lparr>guardians_file := Some [], location_file := Some harbour\<rparr>) = []
   \<and> fst (postEmergencyPrepare [(js ''riskLevel'', JStr (js ''HIGH''))]
            (freshServer\<lparr>guardians_file := Some [], location_file := Some harbour\<rparr>))
       = Inr \<lparr> pk_risk = JStr (js ''HIGH''), pk_note = JUndefined, pk_currentLocation = harbour,
               pk_notifiedGuardians = [] \<rparr>
   \<and> emergencyPrepare ns uc enc [(js ''riskLevel'', JStr (js ''HIGH''))]
        (freshServer\<lparr>guardians_file := Some [], location_file := Some harbour\<rparr>)
       = Inl (Rejection 400 (js ''no_guardians'') [])
   \<and> readGuardians freshServer = []
   \<and> fst (postEmergencyPrepare [(js ''riskLevel'', JStr (js ''HIGH''))] freshServer)
       = Inl (Rejection 500 (js ''server_error'') [])"
proof (intro conjI)
  let ?s = "freshServer\<lparr>guardians_file := Some [], location_file := Some harbour\<rparr>"
  show "fst (postEmergencyPrepare body s) \<noteq> Inl (Rejection 400 (js ''no_guardians'') [])"
    by (rule served_never_no_guardians)
  show "fst (postEmergencyPrepare body s) \<noteq> Inl (Rejection 400 (js ''missing_riskLevel'') [])"
    by (rule served_never_missing_riskLevel)
  show e: "readGuardians ?s = []"
    by (simp add: readGuardians_def)
  show "fst (postEmergencyPrepare [(js ''riskLevel'', JStr (js ''HIGH''))] ?s)
       = Inr \<lparr> pk_risk = JStr (js ''HIGH''), pk_note = JUndefined, pk_currentLocation = harbour,
               pk_notifiedGuardians = [] \<rparr>"
    by (simp add: postEmergencyPrepare_def inlineEmergencyPrepare_def requireGuardians_def
        requireLocation_def freshServer_def)
  show "emergencyPrepare ns uc enc [(js ''riskLevel'', JStr (js ''HIGH''))] ?s
       = Inl (Rejection 400 (js ''no_guardians'') [])"
    using e by (rule second_handler_no_guardians) simp
  show "readGuardians freshServer = []"
    by (simp add: readGuardians_def freshServer_def)
  show "fst (postEmergencyPrepare [(js ''riskLevel'', JStr (js ''HIGH''))] freshServer)
       = Inl (Rejection 500 (js ''server_error'') [])"
    by (simp add: postEmergencyPrepare_def inlineEmergencyPrepare_def requireGuardians_def
        freshServer_def)
qed

text \<open>
  An instance: a request with an empty body, on a guardians file that holds the empty
  array and no location file.
\<close>

theorem served_prepare_skips_the_guardian_check_witness:
  "fst (postEmergencyPrepare [] (freshServer\<lparr>guardians_file := Some []\<rparr>))
     \<noteq> Inl (Rejection 400 (js ''no_guardians'') [])
   \<and> fst (postEmergencyPrepare [] (freshServer\<lparr>guardians_file := Some []\<rparr>))
     \<noteq> Inl (Rejection 400 (js ''missing_riskLevel'') [])
   \<and> emergencyPrepare (\<lambda>n. js ''0'') (map upperUnit) (\<lambda>x. x) [(js ''riskLevel'', JStr (js ''HIGH''))]
        (freshServer\<lparr>guardians_file := Some [], location_file := Some harbour\<rparr>)
       = Inl (Rejection 400 (js ''no_guardians'') [])"
  using served_prepare_skips_the_guardian_check [where body = "[]"
      and s = "freshServer\<lparr>guardians_file := Some []\<rparr>" and ns = "\<lambda>n. js ''0''"
      and uc = "map upperUnit" and enc = "\<lambda>x. x"]
  by simp

section \<open>Properties of the risk assessment route\<close>











section \<open>Properties of the phrase suggestions\<close>

lemma suggest_is_specified_on_trimmed:
  "runtimeLower lc \<Longrightarrow> presageSuggest lc p = suggestAsSpecified lc (trim p)"
  by (simp add: presageSuggest_def suggestAsSpecified_def Let_def lower_is_empty)

lemma second_filter:
  "filter (\<lambda>x. \<not> (x \<in> set (filter P xs)) \<and> Q x) xs = filter (\<lambda>x. \<not> P x \<and> Q x) xs"
  by (rule filter_cong) auto

lemma take_le: "length (take n xs) \<le> n"
  by simp

lemma suggest_length: "length (presageSuggest lc p) \<le> 8"
proof (cases "lc (trim p) = []")
  case True
  have "length (take 6 library) \<le> 6" by (rule take_le)
  with True show ?thesis by (simp add: presageSuggest_def del: length_take)
next
  case False
  then obtain ys where "presageSuggest lc p = take 8 ys"
    by (simp add: presageSuggest_def Let_def del: take_append)
  then show ?thesis by (simp only: take_le)
qed

lemma library_plain: "list_all (list_all plainUnit) library"
  by (simp add: library_def js_def plainUnit_def)

lemma lower_library_by_units:
  assumes "runtimeLower lc"
  shows "map lc library = map (map lowerUnit) library"
proof (rule map_cong [OF refl])
  fix x assume "x \<in> set library"
  with library_plain have "list_all plainUnit x" by (simp add: list_all_iff)
  then show "lc x = map lowerUnit x" by (rule lower_plain [OF assms])
qed

lemma lowered_library:
  "map (map lowerUnit) library =
     [js ''can you stay on call with me for a few minutes?'',
      js ''i'm sharing my live location now.'',
      js ''if i stop replying, please check on me.'',
      js ''i'm moving to a well-lit area.'',
      js ''can you meet me at a nearby public place?'',
      js ''please call me when you can.'',
      js ''i'm not sure this route is safe'' @ [0x2014] @ js ''i'm taking another path.'',
      js ''if needed, can you contact campus security for me?'',
      js ''i'm feeling uncomfortable and want to be extra careful.'']"
  by (simp add: library_def js_def lowerUnit_def)

lemma filter_through_image:
  "filter (\<lambda>x. P (f x)) xs = map fst (filter (\<lambda>xl. P (snd xl)) (zip xs (map f xs)))"
  by (induction xs) auto

lemma ranked_can:
  "take 8 (map fst (filter (\<lambda>xl. startsWith (snd xl) (js ''can''))
                      (zip library (map (map lowerUnit) library)))
           @ map fst (filter (\<lambda>xl. \<not> startsWith (snd xl) (js ''can'') \<and> includesStr (snd xl) (js ''can''))
                        (zip library (map (map lowerUnit) library))))
   = [js ''Can you stay on call with me for a few minutes?'',
      js ''Can you meet me at a nearby public place?'',
      js ''Please call me when you can.'',
      js ''If needed, can you contact campus security for me?'']"
  unfolding lowered_library
  by (simp add: library_def js_def)

lemma ranked_space:
  "take 8 (map fst (filter (\<lambda>xl. startsWith (snd xl) (js '' ''))
                      (zip library (map (map lowerUnit) library)))
           @ map fst (filter (\<lambda>xl. \<not> startsWith (snd xl) (js '' '') \<and> includesStr (snd xl) (js '' ''))
                        (zip library (map (map lowerUnit) library))))
   = take 8 library"
  unfolding lowered_library
  by (simp add: library_def js_def)

lemma ranked_can_filters:
  assumes "runtimeLower lc"
  shows "take 8 (filter (\<lambda>x. startsWith (lc x) (js ''can'')) library
         @ filter (\<lambda>x. \<not> startsWith (lc x) (js ''can'') \<and> includesStr (lc x) (js ''can'')) library)
   = [js ''Can you stay on call with me for a few minutes?'',
      js ''Can you meet me at a nearby public place?'',
      js ''Please call me when you can.'',
      js ''If needed, can you contact campus security for me?'']"
  unfolding filter_through_image [of "\<lambda>l. startsWith l (js ''can'')" lc library]
    filter_through_image [of "\<lambda>l. \<not> startsWith l (js ''can'') \<and> includesStr l (js ''can'')" lc library]
    lower_library_by_units [OF assms]
  by (rule ranked_can)

lemma ranked_space_filters:
  assumes "runtimeLower lc"
  shows "take 8 (filter (\<lambda>x. startsWith (lc x) (js '' '')) library
         @ filter (\<lambda>x. \<not> startsWith (lc x) (js '' '') \<and> includesStr (lc x) (js '' '')) library)
   = take 8 library"
  unfolding filter_through_image [of "\<lambda>l. startsWith l (js '' '')" lc library]
    filter_through_image [of "\<lambda>l. \<not> startsWith l (js '' '') \<and> includesStr l (js '' '')" lc library]
    lower_library_by_units [OF assms]
  by (rule ranked_space)

lemma suggest_unfolded:
  assumes "runtimeLower lc"
  shows "presageSuggest lc p =
     (if trim p = [] then take 6 library
      else take 8 (filter (\<lambda>x. startsWith (lc x) (lc (trim p))) library
                 @ filter (\<lambda>x. \<not> startsWith (lc x) (lc (trim p))
                              \<and> includesStr (lc x) (lc (trim p))) library))"
  by (simp only: presageSuggest_def Let_def second_filter lower_is_empty [OF assms])

lemma specified_unfolded:
  "suggestAsSpecified lc p =
     (if p = [] then take 6 library
      else take 8 (filter (\<lambda>x. startsWith (lc x) (lc p)) library
                 @ filter (\<lambda>x. \<not> startsWith (lc x) (lc p) \<and> includesStr (lc x) (lc p)) library))"
  by (simp only: suggestAsSpecified_def Let_def second_filter)

lemma more_trims:
  "trim (js ''can'') = js ''can''" "trim (js ''  CAN '') = js ''CAN''" "trim [0xA0] = []"
  by (simp_all add: trim_def isSpace_def js_def)

lemma lower_prefixes:
  assumes "runtimeLower lc"
  shows "lc (js ''can'') = js ''can''" "lc (js ''CAN'') = js ''can''" "lc (js '' '') = js '' ''"
  by (simp_all add: lower_plain [OF assms] js_def plainUnit_def lowerUnit_def)

lemma suggest_can:
  assumes "runtimeLower lc"
  shows "presageSuggest lc (js ''can'') =
     [js ''Can you stay on call with me for a few minutes?'',
      js ''Can you meet me at a nearby public place?'',
      js ''Please call me when you can.'',
      js ''If needed, can you contact campus security for me?'']"
  unfolding suggest_unfolded [OF assms] more_trims lower_prefixes [OF assms]
  by (simp add: ranked_can_filters [OF assms] del: take_append)

lemma first_six:
  "take 6 library =
     [js ''Can you stay on call with me for a few minutes?'',
      js ''I'm sharing my live location now.'',
      js ''If I stop replying, please check on me.'',
      js ''I'm moving to a well-lit area.'',
      js ''Can you meet me at a nearby public place?'',
      js ''Please call me when you can.'']"
  by (simp add: library_def)

lemma suggest_empty: "runtimeLower lc \<Longrightarrow> presageSuggest lc [] = take 6 library"
  by (simp add: suggest_unfolded)

lemma library_length: "length library = 9"
  by (simp add: library_def)

text \<open>
  Claim C6, as the code has it: the rule of the specification is applied to the prefix
  with the white space around it removed. When the trimmed prefix is empty the result is
  the first six entries of the library; otherwise it is the entries whose lowercase form
  starts with the lowercase trimmed prefix, in library order, then the other entries
  whose lowercase form contains it, in library order, cut to eight. The empty prefix
  gives the first six entries, and the prefix \<open>can\<close> gives the two entries that start
  with it before the two that only contain it.
\<close>

theorem suggestions_rank_the_trimmed_prefix:
  assumes "runtimeLower lc"
  shows "presageSuggest lc p = suggestAsSpecified lc (trim p)
   \<and> presageSuggest lc p =
       (if trim p = [] then take 6 library
        else take 8 (filter (\<lambda>x. startsWith (lc x) (lc (trim p))) library
                   @ filter (\<lambda>x. \<not> startsWith (lc x) (lc (trim p))
                                \<and> includesStr (lc x) (lc (trim p))) library))
   \<and> length (presageSuggest lc p) \<le> 8
   \<and> presageSuggest lc [] =
       [js ''Can you stay on call with me for a few minutes?'',
        js ''I'm sharing my live location now.'',
        js ''If I stop replying, please check on me.'',
        js ''I'm moving to a well-lit area.'',
        js ''Can you meet me at a nearby public place?'',
        js ''Please call me when you can.'']
   \<and> presageSuggest lc (js ''can'') =
       [js ''Can you stay on call with me for a few minutes?'',
        js ''Can you meet me at a nearby public place?'',
        js ''Please call me when you can.'',
        js ''If needed, can you contact campus security for me?'']"
proof (intro conjI)
  show "presageSuggest lc p = suggestAsSpecified lc (trim p)"
    using assms by (rule suggest_is_specified_on_trimmed)
  show "length (presageSuggest lc p) \<le> 8"
    by (rule suggest_length)
  show "presageSuggest lc [] =
       [js ''Can you stay on call with me for a few minutes?'',
        js ''I'm sharing my live location now.'',
        js ''If I stop replying, please check on me.'',
        js ''I'm moving to a well-lit area.'',
        js ''Can you meet me at a nearby public place?'',
        js ''Please call me when you can.'']"
    by (simp only: suggest_empty [OF assms] first_six)
qed (rule suggest_unfolded [OF assms] suggest_can [OF assms])+

text \<open>
  With the ASCII case mapping for \<open>lc\<close>: the prefix \<open>CAN\<close> between blanks is answered
  as \<open>can\<close> is, and a prefix of one no-break space as the empty prefix is.
\<close>

theorem suggestions_rank_the_trimmed_prefix_witness:
  "runtimeLower (map lowerUnit)
   \<and> presageSuggest (map lowerUnit) (js ''  CAN '') =
       [js ''Can you stay on call with me for a few minutes?'',
        js ''Can you meet me at a nearby public place?'',
        js ''Please call me when you can.'',
        js ''If needed, can you contact campus security for me?'']
   \<and> presageSuggest (map lowerUnit) [0xA0] = take 6 library"
proof -
  have rt: "runtimeLower (map lowerUnit)" by (rule runtime_ascii_maps)
  note t = suggestions_rank_the_trimmed_prefix [OF rt, of "js ''  CAN ''", THEN conjunct2, THEN conjunct1]
  note u = suggestions_rank_the_trimmed_prefix [OF rt, of "[0xA0]", THEN conjunct2, THEN conjunct1]
  have "presageSuggest (map lowerUnit) (js ''  CAN '') =
       [js ''Can you stay on call with me for a few minutes?'',
        js ''Can you meet me at a nearby public place?'',
        js ''Please call me when you can.'',
        js ''If needed, can you contact campus security for me?'']"
    using t unfolding more_trims lower_prefixes [OF rt]
    by (simp add: ranked_can_filters [OF rt] del: take_append)
  moreover have "presageSuggest (map lowerUnit) [0xA0] = take 6 library"
    using u unfolding more_trims by simp
  ultimately show ?thesis using rt by simp
qed

text \<open>
  The claim as the specification states it fails on the prefix of one blank, which is not
  empty: no entry starts with a blank and all nine contain one, so the rule on the
  prefix as given yields eight entries, and the code returns the first six.
\<close>

theorem suggestions_counterexample:
  "presageSuggest (map lowerUnit) (js '' '') \<noteq> suggestAsSpecified (map lowerUnit) (js '' '')
   \<and> length (presageSuggest (map lowerUnit) (js '' '')) = 6
   \<and> length (suggestAsSpecified (map lowerUnit) (js '' '')) = 8"
proof -
  have rt: "runtimeLower (map lowerUnit)" by (rule runtime_ascii_maps)
  have p: "presageSuggest (map lowerUnit) (js '' '') = take 6 library"
    unfolding suggest_unfolded [OF rt] by (simp add: small_trims)
  have q: "suggestAsSpecified (map lowerUnit) (js '' '') = take 8 library"
    unfolding specified_unfolded lower_prefixes [OF rt]
    by (simp add: ranked_space_filters [OF rt] del: take_append)
  have a: "length (presageSuggest (map lowerUnit) (js '' '')) = 6"
    by (simp add: p library_length)
  have b: "length (suggestAsSpecified (map lowerUnit) (js '' '')) = 8"
    by (simp add: q library_length)
  have "presageSuggest (map lowerUnit) (js '' '') \<noteq> suggestAsSpecified (map lowerUnit) (js '' '')"
  proof
    assume "presageSuggest (map lowerUnit) (js '' '') = suggestAsSpecified (map lowerUnit) (js '' '')"
    then have "length (presageSuggest (map lowerUnit) (js '' ''))
        = length (suggestAsSpecified (map lowerUnit) (js '' ''))" by simp
    with a b show False by simp
  qed
  with a b show ?thesis by simp
qed

section \<open>Properties of the emergency script\<close>

lemma upper_is_empty: "runtimeUpper uc \<Longrightarrow> (uc x = []) = (x = [])"
  by (simp add: runtimeUpper_def)

lemma upper_levels:
  assumes "runtimeUpper uc"
  shows "uc (js ''HIGH'') = js ''HIGH''" "uc (js ''MEDIUM'') = js ''MEDIUM''"
    "uc (js ''LOW'') = js ''LOW''" "uc (js ''high'') = js ''HIGH''"
    "uc (js ''critical'') = js ''CRITICAL''" "uc (js ''CRITICAL'') = js ''CRITICAL''"
  by (simp_all add: upper_plain [OF assms] js_def plainUnit_def upperUnit_def)

lemma lower_contacts:
  assumes "runtimeLower lc"
  shows "lc (js ''friend'') = js ''friend''" "lc (js ''family'') = js ''family''"
    "lc (js ''campus'') = js ''campus''" "lc (js ''security'') = js ''security''"
    "lc (js ''FAMILY'') = js ''family''" "lc (js ''Campus'') = js ''campus''"
    "lc (js ''neighbour'') = js ''neighbour''"
  by (simp_all add: lower_plain [OF assms] js_def plainUnit_def lowerUnit_def)

text \<open>The level and the contact that the script is built for.\<close>

lemma level_of_string:
  assumes "runtimeUpper uc"
  shows "callString uc (orElse (JStr r) (JStr (js ''MEDIUM''))) =
     Inr (if r = [] then js ''MEDIUM'' else uc r)"
  by (simp add: orElse_def upper_levels [OF assms])

lemma contact_of_string:
  assumes "runtimeLower lc"
  shows "callString lc (orElse (JStr c) (JStr (js ''friend''))) =
     Inr (if c = [] then js ''friend'' else lc c)"
  by (simp add: orElse_def lower_contacts [OF assms])

lemma trimmed_of_string: "callString trim (orElse (JStr l) (JStr [])) = Inr (trim l)"
  by (simp add: orElse_def)

lemma level_absent:
  "\<not> truthy r \<Longrightarrow> orElse r (JStr (js ''MEDIUM'')) = orElse (JStr (js ''MEDIUM'')) (JStr (js ''MEDIUM''))"
  by (simp add: orElse_def)

lemma contact_absent:
  "\<not> truthy c \<Longrightarrow> orElse c (JStr (js ''friend'')) = orElse (JStr (js ''friend'')) (JStr (js ''friend''))"
  by (simp add: orElse_def)

lemma script_of_strings:
  assumes "runtimeLower lc" "runtimeUpper uc"
  shows "buildEmergencyScript lc uc (JStr r) (JStr c) (JStr l) (JStr x) =
     Inr (scriptFor (if r = [] then js ''MEDIUM'' else uc r)
                    (if c = [] then js ''friend'' else lc c) (trim l) (trim x))"
  unfolding buildEmergencyScript_def level_of_string [OF assms(2)] contact_of_string [OF assms(1)]
    trimmed_of_string
  by simp

lemma script_same_forms:
  assumes "runtimeLower lc" "runtimeUpper uc" "uc r = uc r'" "lc c = lc c'"
  shows "buildEmergencyScript lc uc (JStr r) (JStr c) l x
       = buildEmergencyScript lc uc (JStr r') (JStr c') l x"
proof -
  from assms(3) have a: "(r = []) = (r' = [])"
    using upper_is_empty [OF assms(2), of r] upper_is_empty [OF assms(2), of r'] by simp
  from assms(4) have b: "(c = []) = (c' = [])"
    using lower_is_empty [OF assms(1), of c] lower_is_empty [OF assms(1), of c'] by simp
  show ?thesis
    unfolding buildEmergencyScript_def level_of_string [OF assms(2)] contact_of_string [OF assms(1)]
    by (simp only: a b assms(3) assms(4))
qed

lemma script_level_absent:
  assumes "\<not> truthy r"
  shows "buildEmergencyScript lc uc r c l x = buildEmergencyScript lc uc (JStr (js ''MEDIUM'')) c l x"
  unfolding buildEmergencyScript_def level_absent [OF assms] ..

lemma script_contact_absent:
  assumes "\<not> truthy c"
  shows "buildEmergencyScript lc uc r c l x = buildEmergencyScript lc uc r (JStr (js ''friend'')) l x"
  unfolding buildEmergencyScript_def contact_absent [OF assms] ..

lemma scriptFor_other_level:
  "level \<noteq> js ''HIGH'' \<Longrightarrow> level \<noteq> js ''MEDIUM'' \<Longrightarrow>
   scriptFor level contact loc ctx = scriptFor (js ''LOW'') contact loc ctx"
  by (simp add: scriptFor_def Let_def)

lemma scriptFor_other_contact:
  "contact \<noteq> js ''campus'' \<Longrightarrow> contact \<noteq> js ''security'' \<Longrightarrow> contact \<noteq> js ''family'' \<Longrightarrow>
   scriptFor level contact loc ctx = scriptFor level (js ''friend'') loc ctx"
  by (simp add: scriptFor_def Let_def)

lemma scriptFor_low_is_medium:
  "contact = js ''campus'' \<or> contact = js ''security'' \<or> contact = js ''family'' \<Longrightarrow>
   scriptFor (js ''LOW'') contact loc ctx = scriptFor (js ''MEDIUM'') contact loc ctx"
  by (auto simp add: scriptFor_def Let_def)

lemma script_level_unrecognized:
  assumes "runtimeUpper uc" "r \<noteq> []" "uc r \<noteq> js ''HIGH''" "uc r \<noteq> js ''MEDIUM''"
  shows "buildEmergencyScript lc uc (JStr r) c l x
       = buildEmergencyScript lc uc (JStr (js ''LOW'')) c l x"
proof -
  from assms(3,4) have e: "\<And>contact loc ctx.
      scriptFor (uc r) contact loc ctx = scriptFor (js ''LOW'') contact loc ctx"
    by (rule scriptFor_other_level)
  show ?thesis
    unfolding buildEmergencyScript_def level_of_string [OF assms(1)]
    using assms(2) by (simp add: upper_levels [OF assms(1)] e)
qed

lemma script_contact_other:
  assumes "runtimeLower lc"
    "lc c \<noteq> js ''campus''" "lc c \<noteq> js ''security''" "lc c \<noteq> js ''family''"
  shows "buildEmergencyScript lc uc r (JStr c) l x
       = buildEmergencyScript lc uc r (JStr (js ''friend'')) l x"
proof -
  from assms(2,3,4) have e: "\<And>level loc ctx.
      scriptFor level (lc c) loc ctx = scriptFor level (js ''friend'') loc ctx"
    by (rule scriptFor_other_contact)
  show ?thesis
    unfolding buildEmergencyScript_def contact_of_string [OF assms(1)]
    by (simp add: lower_contacts [OF assms(1)] e)
qed

lemma script_low_is_medium:
  assumes "runtimeLower lc" "runtimeUpper uc"
    "lc c = js ''campus'' \<or> lc c = js ''security'' \<or> lc c = js ''family''"
  shows "buildEmergencyScript lc uc (JStr (js ''LOW'')) (JStr c) l x
       = buildEmergencyScript lc uc (JStr (js ''MEDIUM'')) (JStr c) l x"
proof -
  from assms(3) have "lc c \<noteq> []" by auto
  then have n: "c \<noteq> []" by (simp add: lower_is_empty [OF assms(1)])
  from assms(3) have e: "\<And>loc ctx.
      scriptFor (js ''LOW'') (lc c) loc ctx = scriptFor (js ''MEDIUM'') (lc c) loc ctx"
    by (rule scriptFor_low_is_medium)
  show ?thesis
    unfolding buildEmergencyScript_def level_of_string [OF assms(2)] contact_of_string [OF assms(1)]
    using n by (simp add: upper_levels [OF assms(2)] e)
qed

lemma callString_ok:
  "\<not> truthy v \<or> isString v \<Longrightarrow> \<exists>y. callString f (orElse v (JStr d)) = Inr y"
  by (cases v) (auto simp add: orElse_def)

lemma script_no_error:
  assumes "\<not> truthy r \<or> isString r" "\<not> truthy c \<or> isString c"
    "\<not> truthy l \<or> isString l" "\<not> truthy x \<or> isString x"
  shows "buildEmergencyScript lc uc r c l x \<noteq> Inl TypeError"
proof -
  from callString_ok [OF assms(1)] obtain a where a: "callString uc (orElse r (JStr (js ''MEDIUM''))) = Inr a"
    by blast
  from callString_ok [OF assms(2)] obtain b where b: "callString lc (orElse c (JStr (js ''friend''))) = Inr b"
    by blast
  from callString_ok [OF assms(3)] obtain d where d: "callString trim (orElse l (JStr [])) = Inr d"
    by blast
  from callString_ok [OF assms(4)] obtain e where e: "callString trim (orElse x (JStr [])) = Inr e"
    by blast
  show ?thesis
    unfolding buildEmergencyScript_def a b d e by simp
qed

lemma script_type_error:
  "truthy r \<Longrightarrow> \<not> isString r \<Longrightarrow> buildEmergencyScript lc uc r c l x = Inl TypeError"
  by (cases r) (simp_all add: buildEmergencyScript_def orElse_def)

text \<open>
  Claim C9, as the code has it. On four strings the script is the one for the level in
  upper case (MEDIUM for the empty string), the contact type in lower case (friend for
  the empty string) and the two texts trimmed; so two levels with the same upper-case
  form, and two contact types with the same lower-case form, give the same result. A
  level that is absent (not truthy) is taken as MEDIUM. A level that is a non-empty
  string other than HIGH, MEDIUM and LOW in upper case is taken as LOW, which is the
  same script as MEDIUM for a campus, security or family contact and another one for a
  friend. A contact type that is absent, or a string other than campus, security and
  family in lower case, is taken as friend. When each of the four inputs is absent or a
  string, no error is thrown.
\<close>

theorem emergency_script_defaults:
  assumes "runtimeLower lc" and "runtimeUpper uc"
  shows "buildEmergencyScript lc uc (JStr r) (JStr c) (JStr lt) (JStr xt) =
       Inr (scriptFor (if r = [] then js ''MEDIUM'' else uc r)
                      (if c = [] then js ''friend'' else lc c) (trim lt) (trim xt))
   \<and> (uc r = uc r' \<and> lc c = lc c' \<longrightarrow>
        buildEmergencyScript lc uc (JStr r) (JStr c) l x
          = buildEmergencyScript lc uc (JStr r') (JStr c') l x)
   \<and> (\<not> truthy rv \<longrightarrow>
        buildEmergencyScript lc uc rv cv l x
          = buildEmergencyScript lc uc (JStr (js ''MEDIUM'')) cv l x)
   \<and> (r \<noteq> [] \<and> uc r \<noteq> js ''HIGH'' \<and> uc r \<noteq> js ''MEDIUM'' \<and> uc r \<noteq> js ''LOW'' \<longrightarrow>
        buildEmergencyScript lc uc (JStr r) cv l x
          = buildEmergencyScript lc uc (JStr (js ''LOW'')) cv l x)
   \<and> (lc c = js ''campus'' \<or> lc c = js ''security'' \<or> lc c = js ''family'' \<longrightarrow>
        buildEmergencyScript lc uc (JStr (js ''LOW'')) (JStr c) l x
          = buildEmergencyScript lc uc (JStr (js ''MEDIUM'')) (JStr c) l x)
   \<and> (\<not> truthy cv \<longrightarrow>
        buildEmergencyScript lc uc rv cv l x
          = buildEmergencyScript lc uc rv (JStr (js ''friend'')) l x)
   \<and> (lc c \<noteq> js ''campus'' \<and> lc c \<noteq> js ''security'' \<and> lc c \<noteq> js ''family'' \<longrightarrow>
        buildEmergencyScript lc uc rv (JStr c) l x
          = buildEmergencyScript lc uc rv (JStr (js ''friend'')) l x)
   \<and> ((\<not> truthy rv \<or> isString rv) \<and> (\<not> truthy cv \<or> isString cv)
        \<and> (\<not> truthy l \<or> isString l) \<and> (\<not> truthy x \<or> isString x) \<longrightarrow>
        buildEmergencyScript lc uc rv cv l x \<noteq> Inl TypeError)"
proof (intro conjI impI)
  show "buildEmergencyScript lc uc (JStr r) (JStr c) (JStr lt) (JStr xt) =
       Inr (scriptFor (if r = [] then js ''MEDIUM'' else uc r)
                      (if c = [] then js ''friend'' else lc c) (trim lt) (trim xt))"
    using assms by (rule script_of_strings)
  show "uc r = uc r' \<and> lc c = lc c' \<Longrightarrow>
        buildEmergencyScript lc uc (JStr r) (JStr c) l x
          = buildEmergencyScript lc uc (JStr r') (JStr c') l x"
    by (rule script_same_forms [OF assms]) simp_all
  show "\<not> truthy rv \<Longrightarrow>
        buildEmergencyScript lc uc rv cv l x
          = buildEmergencyScript lc uc (JStr (js ''MEDIUM'')) cv l x"
    by (rule script_level_absent)
  show "r \<noteq> [] \<and> uc r \<noteq> js ''HIGH'' \<and> uc r \<noteq> js ''MEDIUM'' \<and> uc r \<noteq> js ''LOW'' \<Longrightarrow>
        buildEmergencyScript lc uc (JStr r) cv l x
          = buildEmergencyScript lc uc (JStr (js ''LOW'')) cv l x"
    by (rule script_level_unrecognized [OF assms(2)]) simp_all
  show "lc c = js ''campus'' \<or> lc c = js ''security'' \<or> lc c = js ''family'' \<Longrightarrow>
        buildEmergencyScript lc uc (JStr (js ''LOW'')) (JStr c) l x
          = buildEmergencyScript lc uc (JStr (js ''MEDIUM'')) (JStr c) l x"
    by (rule script_low_is_medium [OF assms])
  show "\<not> truthy cv \<Longrightarrow>
        buildEmergencyScript lc uc rv cv l x
          = buildEmergencyScript lc uc rv (JStr (js ''friend'')) l x"
    by (rule script_contact_absent)
  show "lc c \<noteq> js ''campus'' \<and> lc c \<noteq> js ''security'' \<and> lc c \<noteq> js ''family'' \<Longrightarrow>
        buildEmergencyScript lc uc rv (JStr c) l x
          = buildEmergencyScript lc uc rv (JStr (js ''friend'')) l x"
    by (rule script_contact_other [OF assms(1)]) simp_all
  show "(\<not> truthy rv \<or> isString rv) \<and> (\<not> truthy cv \<or> isString cv)
        \<and> (\<not> truthy l \<or> isString l) \<and> (\<not> truthy x \<or> isString x) \<Longrightarrow>
        buildEmergencyScript lc uc rv cv l x \<noteq> Inl TypeError"
    by (rule script_no_error) simp_all
qed

text \<open>
  Instances, with the ASCII case mappings: \<open>high\<close> with \<open>FAMILY\<close>; an absent level
  for a campus contact; the level \<open>critical\<close> with an absent contact; the contact
  \<open>neighbour\<close>.
\<close>

theorem emergency_script_defaults_witness:
  "runtimeLower (map lowerUnit) \<and> runtimeUpper (map upperUnit)
   \<and> buildEmergencyScript (map lowerUnit) (map upperUnit)
       (JStr (js ''high'')) (JStr (js ''FAMILY'')) JUndefined JUndefined
     = buildEmergencyScript (map lowerUnit) (map upperUnit)
       (JStr (js ''HIGH'')) (JStr (js ''family'')) JUndefined JUndefined
   \<and> buildEmergencyScript (map lowerUnit) (map upperUnit)
       JUndefined (JStr (js ''Campus'')) JUndefined JUndefined
     = buildEmergencyScript (map lowerUnit) (map upperUnit)
       (JStr (js ''MEDIUM'')) (JStr (js ''Campus'')) JUndefined JUndefined
   \<and> buildEmergencyScript (map lowerUnit) (map upperUnit)
       (JStr (js ''critical'')) JNull JUndefined JUndefined
     = buildEmergencyScript (map lowerUnit) (map upperUnit)
       (JStr (js ''LOW'')) JNull JUndefined JUndefined
   \<and> buildEmergencyScript (map lowerUnit) (map upperUnit)
       (JStr (js ''LOW'')) (JStr (js ''Campus'')) JUndefined JUndefined
     = buildEmergencyScript (map lowerUnit) (map upperUnit)
       (JStr (js ''MEDIUM'')) (JStr (js ''Campus'')) JUndefined JUndefined
   \<and> buildEmergencyScript (map lowerUnit) (map upperUnit)
       (JStr (js ''critical'')) JNull JUndefined JUndefined
     = buildEmergencyScript (map lowerUnit) (map upperUnit)
       (JStr (js ''critical'')) (JStr (js ''friend'')) JUndefined JUndefined
   \<and> buildEmergencyScript (map lowerUnit) (map upperUnit)
       JUndefined (JStr (js ''neighbour'')) JUndefined JUndefined
     = buildEmergencyScript (map lowerUnit) (map upperUnit)
       JUndefined (JStr (js ''friend'')) JUndefined JUndefined
   \<and> buildEmergencyScript (map lowerUnit) (map upperUnit)
       (JStr (js ''critical'')) JNull JUndefined JUndefined \<noteq> Inl TypeError"
proof -
  have lo: "runtimeLower (map lowerUnit)" and up: "runtimeUpper (map upperUnit)"
    by (rule runtime_ascii_maps)+
  note a = emergency_script_defaults [OF lo up, where r = "js ''high''" and c = "js ''FAMILY''"
      and r' = "js ''HIGH''" and c' = "js ''family''"
      and rv = JUndefined and cv = "JStr (js ''Campus'')" and l = JUndefined and x = JUndefined]
  note b = emergency_script_defaults [OF lo up, where r = "js ''critical''" and c = "js ''Campus''"
      and rv = "JStr (js ''critical'')" and cv = JNull and l = JUndefined and x = JUndefined]
  note d = emergency_script_defaults [OF lo up, where r = "js ''critical''" and c = "js ''neighbour''"
      and rv = JUndefined and cv = JNull and l = JUndefined and x = JUndefined]
  have 1: "buildEmergencyScript (map lowerUnit) (map upperUnit)
       (JStr (js ''high'')) (JStr (js ''FAMILY'')) JUndefined JUndefined
     = buildEmergencyScript (map lowerUnit) (map upperUnit)
       (JStr (js ''HIGH'')) (JStr (js ''family'')) JUndefined JUndefined"
    using a [THEN conjunct2, THEN conjunct1]
    by (simp add: upper_levels [OF up] lower_contacts [OF lo])
  have 2: "buildEmergencyScript (map lowerUnit) (map upperUnit)
       JUndefined (JStr (js ''Campus'')) JUndefined JUndefined
     = buildEmergencyScript (map lowerUnit) (map upperUnit)
       (JStr (js ''MEDIUM'')) (JStr (js ''Campus'')) JUndefined JUndefined"
    using a [THEN conjunct2, THEN conjunct2, THEN conjunct1] by simp
  have 3: "buildEmergencyScript (map lowerUnit) (map upperUnit)
       (JStr (js ''critical'')) JNull JUndefined JUndefined
     = buildEmergencyScript (map lowerUnit) (map upperUnit)
       (JStr (js ''LOW'')) JNull JUndefined JUndefined"
    using b [THEN conjunct2, THEN conjunct2, THEN conjunct2, THEN conjunct1]
    by (simp add: upper_levels [OF up])
  have 4: "buildEmergencyScript (map lowerUnit) (map upperUnit)
       (JStr (js ''LOW'')) (JStr (js ''Campus'')) JUndefined JUndefined
     = buildEmergencyScript (map lowerUnit) (map upperUnit)
       (JStr (js ''MEDIUM'')) (JStr (js ''Campus'')) JUndefined JUndefined"
    using b [THEN conjunct2, THEN conjunct2, THEN conjunct2, THEN conjunct2, THEN conjunct1]
    by (simp add: lower_contacts [OF lo])
  have 5: "buildEmergencyScript (map lowerUnit) (map upperUnit)
       (JStr (js ''critical'')) JNull JUndefined JUndefined
     = buildEmergencyScript (map lowerUnit) (map upperUnit)
       (JStr (js ''critical'')) (JStr (js ''friend'')) JUndefined JUndefined"
    using b [THEN conjunct2, THEN conjunct2, THEN conjunct2, THEN conjunct2, THEN conjunct2,
        THEN conjunct1]
    by simp
  have 6: "buildEmergencyScript (map lowerUnit) (map upperUnit)
       JUndefined (JStr (js ''neighbour'')) JUndefined JUndefined
     = buildEmergencyScript (map lowerUnit) (map upperUnit)
       JUndefined (JStr (js ''friend'')) JUndefined JUndefined"
    using d [THEN conjunct2, THEN conjunct2, THEN conjunct2, THEN conjunct2, THEN conjunct2,
        THEN conjunct2, THEN conjunct1]
    by (simp add: lower_contacts [OF lo])
  have 7: "buildEmergencyScript (map lowerUnit) (map upperUnit)
       (JStr (js ''critical'')) JNull JUndefined JUndefined \<noteq> Inl TypeError"
    using b [THEN conjunct2, THEN conjunct2, THEN conjunct2, THEN conjunct2, THEN conjunct2,
        THEN conjunct2, THEN conjunct2]
    by simp
  from lo up 1 2 3 4 5 6 7 show ?thesis by blast
qed

text \<open>
  The claim as the specification states it fails on the level CRITICAL for a friend: the
  script is the one for LOW, a quick check-in, and not the one for MEDIUM. It also
  fails on a level that is the number 5: the call of \<open>toUpperCase\<close> throws.
\<close>

theorem emergency_script_defaults_counterexample:
  "buildEmergencyScript (map lowerUnit) (map upperUnit)
       (JStr (js ''CRITICAL'')) (JStr (js ''friend'')) JUndefined JUndefined
     = Inr (scriptFor (js ''CRITICAL'') (js ''friend'') [] [])
   \<and> script_text (scriptFor (js ''CRITICAL'') (js ''friend'') [] [])
     = js ''Hey! Quick check-in: I'm walking. I'll message when I arrive.''
   \<and> buildEmergencyScript (map lowerUnit) (map upperUnit)
       (JStr (js ''MEDIUM'')) (JStr (js ''friend'')) JUndefined JUndefined
     = Inr (scriptFor (js ''MEDIUM'') (js ''friend'') [] [])
   \<and> script_text (scriptFor (js ''MEDIUM'') (js ''friend'') [] [])
     = js ''Hey, I'm a bit uncomfortable. Can you stay on standby and check in with me in a few minutes?''
   \<and> buildEmergencyScript (map lowerUnit) (map upperUnit)
       (JStr (js ''CRITICAL'')) (JStr (js ''friend'')) JUndefined JUndefined
     \<noteq> buildEmergencyScript (map lowerUnit) (map upperUnit)
       (JStr (js ''MEDIUM'')) (JStr (js ''friend'')) JUndefined JUndefined
   \<and> buildEmergencyScript (map lowerUnit) (map upperUnit)
       (JNum (Finite 5)) (JStr (js ''friend'')) JUndefined JUndefined = Inl TypeError"
proof -
  have lo: "runtimeLower (map lowerUnit)" and up: "runtimeUpper (map upperUnit)"
    by (rule runtime_ascii_maps)+
  have a: "buildEmergencyScript (map lowerUnit) (map upperUnit)
       (JStr (js ''CRITICAL'')) (JStr (js ''friend'')) JUndefined JUndefined
     = Inr (scriptFor (js ''CRITICAL'') (js ''friend'') [] [])"
    unfolding buildEmergencyScript_def level_of_string [OF up] contact_of_string [OF lo]
    by (simp add: upper_levels [OF up] lower_contacts [OF lo] orElse_def)
  have b: "buildEmergencyScript (map lowerUnit) (map upperUnit)
       (JStr (js ''MEDIUM'')) (JStr (js ''friend'')) JUndefined JUndefined
     = Inr (scriptFor (js ''MEDIUM'') (js ''friend'') [] [])"
    unfolding buildEmergencyScript_def level_of_string [OF up] contact_of_string [OF lo]
    by (simp add: upper_levels [OF up] lower_contacts [OF lo] orElse_def)
  have c: "script_text (scriptFor (js ''CRITICAL'') (js ''friend'') [] [])
     = js ''Hey! Quick check-in: I'm walking. I'll message when I arrive.''"
    by (simp add: scriptFor_def js_def)
  have d: "script_text (scriptFor (js ''MEDIUM'') (js ''friend'') [] [])
     = js ''Hey, I'm a bit uncomfortable. Can you stay on standby and check in with me in a few minutes?''"
    by (simp add: scriptFor_def js_def)
  have e: "scriptFor (js ''CRITICAL'') (js ''friend'') [] [] \<noteq> scriptFor (js ''MEDIUM'') (js ''friend'') [] []"
  proof
    assume "scriptFor (js ''CRITICAL'') (js ''friend'') [] [] = scriptFor (js ''MEDIUM'') (js ''friend'') [] []"
    then have "script_text (scriptFor (js ''CRITICAL'') (js ''friend'') [] [])
        = script_text (scriptFor (js ''MEDIUM'') (js ''friend'') [] [])" by simp
    then show False unfolding c d by simp
  qed
  have f: "buildEmergencyScript (map lowerUnit) (map upperUnit)
       (JNum (Finite 5)) (JStr (js ''friend'')) JUndefined JUndefined = Inl TypeError"
    by (rule script_type_error) simp_all
  from a b c d e f show ?thesis by simp
qed

end
